theory Spec2Isabelle
  imports Complex_Main "HOL-Library.Monad_Syntax"
begin

section \<open>JavaScript strings\<close>

text \<open>
  A JavaScript string is a sequence of UTF-16 code units. The route handler tests for
  CJK ideographs and searches for Chinese keywords, so a code unit is a natural number
  here (not an 8-bit \<open>char\<close>); \<open>lit\<close> turns an ASCII literal into code units.
\<close>

type_synonym jsstring = "nat list"

definition lit :: "string \<Rightarrow> jsstring" where
  "lit s = map of_char s"

definition dquote :: nat where "dquote = 34"
definition backslash :: nat where "backslash = 92"
definition newline :: nat where "newline = 10"

text \<open>\<open>String.prototype.includes\<close>: the argument occurs as a contiguous run.\<close>

definition startsWith :: "jsstring \<Rightarrow> jsstring \<Rightarrow> bool" where
  "startsWith s p = (take (length p) s = p)"

fun includesStr :: "jsstring \<Rightarrow> jsstring \<Rightarrow> bool" where
  "includesStr [] sub = (sub = [])"
| "includesStr (c # cs) sub = (startsWith (c # cs) sub \<or> includesStr cs sub)"

text \<open>\<open>Array.prototype.join\<close> on strings.\<close>

fun join :: "jsstring \<Rightarrow> jsstring list \<Rightarrow> jsstring" where
  "join sep [] = []"
| "join sep [x] = x"
| "join sep (x # y # ys) = x @ sep @ join sep (y # ys)"

text \<open>
  \<open>String.prototype.trim\<close> removes the ECMAScript white space and line terminator
  code units from both ends.
\<close>

definition isWhiteSpace :: "nat \<Rightarrow> bool" where
  "isWhiteSpace c =
     (c = 9 \<or> c = 10 \<or> c = 11 \<or> c = 12 \<or> c = 13 \<or> c = 32 \<or> c = 160
      \<or> c = 0x1680 \<or> (0x2000 \<le> c \<and> c \<le> 0x200A) \<or> c = 0x2028 \<or> c = 0x2029
      \<or> c = 0x202F \<or> c = 0x205F \<or> c = 0x3000 \<or> c = 0xFEFF)"

definition trim :: "jsstring \<Rightarrow> jsstring" where
  "trim s = rev (dropWhile isWhiteSpace (rev (dropWhile isWhiteSpace s)))"

text \<open>
  \<open>toLowerCase\<close> and \<open>toUpperCase\<close>. The ASCII letters are mapped exactly. The
  handler uses the lower case of a string only to search it for ASCII and Chinese
  keywords and to test it against \<open>[a-z0-9._-]\<close>, and the upper case only to compare
  it with \<open>CRITICAL\<close>, \<open>WARNING\<close> and \<open>INFO\<close>. The code units above 127 whose
  lower case contains an ASCII letter are U+0130 (\<open>i\<close> followed by U+0307) and U+212A
  (\<open>k\<close>); of those whose upper case is made of ASCII letters only U+0131 (\<open>I\<close>) gives
  a letter of the three severity words, and U+017F gives \<open>S\<close>. These four are mapped
  as Unicode says. Every other code unit above 127 is kept as it is, where JavaScript
  may map it to other code units that cannot occur in a keyword, a tag token or a
  severity word: the tests of the handler come out the same.
\<close>

definition lowerUnit :: "nat \<Rightarrow> jsstring" where
  "lowerUnit c =
     (if 65 \<le> c \<and> c \<le> 90 then [c + 32]
      else if c = 0x0130 then [105, 0x0307]
      else if c = 0x212A then [107]
      else [c])"

definition toLowerCase :: "jsstring \<Rightarrow> jsstring" where
  "toLowerCase s = concat (map lowerUnit s)"

definition upperUnit :: "nat \<Rightarrow> jsstring" where
  "upperUnit c =
     (if 97 \<le> c \<and> c \<le> 122 then [c - 32]
      else if c = 0x0131 then [73]
      else if c = 0x017F then [83]
      else [c])"

definition toUpperCase :: "jsstring \<Rightarrow> jsstring" where
  "toUpperCase s = concat (map upperUnit s)"

text \<open>Decimal rendering of an integer, as a template literal prints it.\<close>

fun showNat :: "nat \<Rightarrow> jsstring" where
  "showNat n = (if n < 10 then [48 + n] else showNat (n div 10) @ [48 + n mod 10])"

declare showNat.simps [simp del]

definition showInt :: "int \<Rightarrow> jsstring" where
  "showInt i = (if i < 0 then 45 # showNat (nat (- i)) else showNat (nat i))"

section \<open>Escaping of literals for the query language\<close>

text \<open>
  \<^verbatim>\<open>
  function escapeSplString(s: string): string {
    return String(s ?? "").replace(/\\/g, "\\\\").replace(/"/g, '\\"');
  }
  \<close>
  Two global replacements, one after the other: every backslash becomes two
  backslashes, then every double quote becomes a backslash and a double quote.
\<close>

definition replaceBackslashes :: "jsstring \<Rightarrow> jsstring" where
  "replaceBackslashes s = concat (map (\<lambda>c. if c = backslash then [backslash, backslash] else [c]) s)"

definition replaceQuotes :: "jsstring \<Rightarrow> jsstring" where
  "replaceQuotes s = concat (map (\<lambda>c. if c = dquote then [backslash, dquote] else [c]) s)"

definition escapeSplString :: "jsstring \<Rightarrow> jsstring" where
  "escapeSplString s = replaceQuotes (replaceBackslashes s)"

text \<open>
  The reader of an escaped literal: a backslash makes the next code unit literal.
  The handler has no such function; it is the inverse the query language applies.
\<close>

fun unescapeSplString :: "jsstring \<Rightarrow> jsstring" where
  "unescapeSplString [] = []"
| "unescapeSplString [c] = [c]"
| "unescapeSplString (c # d # cs) =
     (if c = backslash then d # unescapeSplString cs else c # unescapeSplString (d # cs))"

text \<open>The escaping seen one code unit at a time.\<close>

definition escapeUnit :: "nat \<Rightarrow> jsstring" where
  "escapeUnit c =
     (if c = backslash then [backslash, backslash]
      else if c = dquote then [backslash, dquote]
      else [c])"

section \<open>Decoded model output: JavaScript values\<close>

text \<open>
  The planner's answer is decoded by \<open>JSON.parse\<close> and handed on as \<open>unknown\<close>.
  A number is a double: not a number, an infinity, or a finite value (a rational here;
  only \<open>Math.floor\<close>, \<open>Math.min\<close> and \<open>Math.max\<close> are applied to it, and they are
  exact). An object is its list of own properties, each key once.
\<close>

datatype jsnum = NaN | PosInfinity | NegInfinity | Num rat

datatype jsval =
    JUndefined
  | JNull
  | JBool bool
  | JNum jsnum
  | JStr jsstring
  | JArr "jsval list"
  | JObj "(jsstring \<times> jsval) list"

text \<open>
  What the handler takes from its host: the conversions between numbers and strings
  (\<open>Number(s)\<close> on a string and \<open>String(n)\<close> on a number, both total), two
  environment variables, the clock (\<open>Date.now()\<close> while the panel with a given sequence
  number is built) and the local-time label of a timestamp.
\<close>

record host =
  numberToString :: "jsnum \<Rightarrow> jsstring"
  stringToNumber :: "jsstring \<Rightarrow> jsnum"
  DEFAULT_EARLIEST_TIME :: "jsstring option"
  DEFAULT_LATEST_TIME :: "jsstring option"
  dateNow :: "nat \<Rightarrow> int"
  timeLabel :: "int \<Rightarrow> jsstring"

text \<open>
  Property access \<open>v.k\<close> and \<open>v?.k\<close> for the keys the handler reads (none of them is
  inherited from a prototype): the own property of an object, \<open>undefined\<close> otherwise.
\<close>

definition lookupOwn :: "(jsstring \<times> jsval) list \<Rightarrow> jsstring \<Rightarrow> jsval" where
  "lookupOwn kvs k = (case map_of kvs k of Some x \<Rightarrow> x | None \<Rightarrow> JUndefined)"

definition getProp :: "jsval \<Rightarrow> string \<Rightarrow> jsval" where
  "getProp v k = (case v of JObj kvs \<Rightarrow> lookupOwn kvs (lit k) | _ \<Rightarrow> JUndefined)"

definition hasOwn :: "(jsstring \<times> jsval) list \<Rightarrow> string \<Rightarrow> bool" where
  "hasOwn kvs k = (map_of kvs (lit k) \<noteq> None)"

text \<open>
  \<open>String(v)\<close>. \<open>None\<close> is the TypeError of the conversion of an object to a
  primitive: a decoded object whose own \<open>toString\<close> property (never a function)
  hides the inherited method cannot be converted. An array is joined with commas,
  \<open>undefined\<close> and \<open>null\<close> elements as empty strings.
\<close>

fun toStringJS :: "(jsnum \<Rightarrow> jsstring) \<Rightarrow> jsval \<Rightarrow> jsstring option"
  and elementStrings :: "(jsnum \<Rightarrow> jsstring) \<Rightarrow> jsval list \<Rightarrow> jsstring list option" where
  "toStringJS ns JUndefined = Some (lit ''undefined'')"
| "toStringJS ns JNull = Some (lit ''null'')"
| "toStringJS ns (JBool b) = Some (if b then lit ''true'' else lit ''false'')"
| "toStringJS ns (JNum n) = Some (ns n)"
| "toStringJS ns (JStr s) = Some s"
| "toStringJS ns (JArr xs) = map_option (join (lit '','')) (elementStrings ns xs)"
| "toStringJS ns (JObj kvs) =
     (if hasOwn kvs ''toString'' then None else Some (lit ''[object Object]''))"
| "elementStrings ns [] = Some []"
| "elementStrings ns (x # xs) =
     (case (if x = JUndefined \<or> x = JNull then Some [] else toStringJS ns x) of
        None \<Rightarrow> None
      | Some s \<Rightarrow> map_option ((#) s) (elementStrings ns xs))"

text \<open>\<open>Number(v)\<close>; an object or array goes through its string.\<close>

definition toNumberJS :: "host \<Rightarrow> jsval \<Rightarrow> jsnum option" where
  "toNumberJS h v =
     (case v of
        JUndefined \<Rightarrow> Some NaN
      | JNull \<Rightarrow> Some (Num 0)
      | JBool b \<Rightarrow> Some (Num (if b then 1 else 0))
      | JNum n \<Rightarrow> Some n
      | JStr s \<Rightarrow> Some (stringToNumber h s)
      | _ \<Rightarrow> map_option (stringToNumber h) (toStringJS (numberToString h) v))"

definition truthy :: "jsval \<Rightarrow> bool" where
  "truthy v =
     (case v of
        JUndefined \<Rightarrow> False
      | JNull \<Rightarrow> False
      | JBool b \<Rightarrow> b
      | JNum n \<Rightarrow> n \<noteq> NaN \<and> n \<noteq> Num 0
      | JStr s \<Rightarrow> s \<noteq> []
      | _ \<Rightarrow> True)"

text \<open>\<open>typeof v === "string" && v.trim() ? v.trim() : undefined\<close>, as an option.\<close>

definition trimmedString :: "jsval \<Rightarrow> jsstring option" where
  "trimmedString v =
     (case v of JStr s \<Rightarrow> (if trim s \<noteq> [] then Some (trim s) else None) | _ \<Rightarrow> None)"

text \<open>\<open>String(x || "")\<close>.\<close>

definition stringOrEmpty :: "host \<Rightarrow> jsval \<Rightarrow> jsstring option" where
  "stringOrEmpty h x = (if truthy x then toStringJS (numberToString h) x else Some [])"

section \<open>Helpers of the handler\<close>

text \<open>
  \<^verbatim>\<open>
  function detectLanguage(msg: string): "en" | "zh" {
    return /[U+4E00-U+9FFF]/.test(msg) ? "zh" : "en";
  }
  function clampInt(n: unknown, lo: number, hi: number, dflt: number): number {
    const x = Number(n);
    if (!Number.isFinite(x)) return dflt;
    return Math.min(hi, Math.max(lo, Math.floor(x)));
  }
  \<close>
  \<open>clampNum\<close> is the body after the conversion; the bounds and the default are
  integers at every call.
\<close>

datatype Language = En | Zh

definition detectLanguage :: "jsstring \<Rightarrow> Language" where
  "detectLanguage msg = (if list_ex (\<lambda>c. 0x4e00 \<le> c \<and> c \<le> 0x9fff) msg then Zh else En)"

definition clampNum :: "jsnum \<Rightarrow> int \<Rightarrow> int \<Rightarrow> int \<Rightarrow> int" where
  "clampNum x lo hi dflt =
     (case x of Num q \<Rightarrow> min hi (max lo (floor q)) | _ \<Rightarrow> dflt)"

definition clampInt :: "host \<Rightarrow> jsval \<Rightarrow> int \<Rightarrow> int \<Rightarrow> int \<Rightarrow> int option" where
  "clampInt h n lo hi dflt = map_option (\<lambda>x. clampNum x lo hi dflt) (toNumberJS h n)"

text \<open>A limit already typed \<open>number | undefined\<close>, read back as a number.\<close>

definition limitNumber :: "int option \<Rightarrow> jsnum" where
  "limitNumber l = (case l of None \<Rightarrow> NaN | Some k \<Rightarrow> Num (of_int k))"

subsection \<open>Tag tokens in the user message\<close>

text \<open>
  \<^verbatim>\<open>
  function extractTagTokens(userMsg: string): string[] {
    const s = String(userMsg ?? "");
    const out = new Set<string>();
    const re1 = /attack\.t\d{4}(?:\.\d{3})?/gi;
    const re2 = /nist\.[a-z0-9._-]+/gi;
    for (const m of s.match(re1) || []) out.add(m.toLowerCase());
    for (const m of s.match(re2) || []) out.add(m.toLowerCase());
    return Array.from(out);
  }
  \<close>
  Each expression is matched by hand: \<open>matchAttackTag\<close> and \<open>matchNistTag\<close> give the
  length of the match that starts at the head of their argument, \<open>matchAll\<close> is the
  global scan (leftmost match, then on from its end). Without the \<open>u\<close> flag, \<open>i\<close>
  lets a pattern letter match its two ASCII cases only.
\<close>

definition isDigit :: "nat \<Rightarrow> bool" where
  "isDigit c = (48 \<le> c \<and> c \<le> 57)"

definition asciiLower :: "nat \<Rightarrow> nat" where
  "asciiLower c = (if 65 \<le> c \<and> c \<le> 90 then c + 32 else c)"

definition matchesIgnoreCase :: "jsstring \<Rightarrow> jsstring \<Rightarrow> bool" where
  "matchesIgnoreCase p s = (map asciiLower (take (length p) s) = p)"

definition digitsAt :: "nat \<Rightarrow> nat \<Rightarrow> jsstring \<Rightarrow> bool" where
  "digitsAt i n s = (length (take n (drop i s)) = n \<and> list_all isDigit (take n (drop i s)))"

definition matchAttackTag :: "jsstring \<Rightarrow> nat option" where
  "matchAttackTag s =
     (if matchesIgnoreCase (lit ''attack.t'') s \<and> digitsAt 8 4 s
      then (if take 1 (drop 12 s) = [46] \<and> digitsAt 13 3 s then Some 16 else Some 12)
      else None)"

definition isTagUnit :: "nat \<Rightarrow> bool" where
  "isTagUnit c =
     ((97 \<le> c \<and> c \<le> 122) \<or> (65 \<le> c \<and> c \<le> 90) \<or> isDigit c \<or> c = 46 \<or> c = 95 \<or> c = 45)"

definition matchNistTag :: "jsstring \<Rightarrow> nat option" where
  "matchNistTag s =
     (if matchesIgnoreCase (lit ''nist.'') s \<and> takeWhile isTagUnit (drop 5 s) \<noteq> []
      then Some (5 + length (takeWhile isTagUnit (drop 5 s)))
      else None)"

fun matchAll :: "(jsstring \<Rightarrow> nat option) \<Rightarrow> jsstring \<Rightarrow> jsstring list" where
  "matchAll m [] = []"
| "matchAll m (c # cs) =
     (case m (c # cs) of
        None \<Rightarrow> matchAll m cs
      | Some n \<Rightarrow> take n (c # cs) # matchAll m (drop (n - 1) cs))"

definition setAdd :: "jsstring list \<Rightarrow> jsstring \<Rightarrow> jsstring list" where
  "setAdd out x = (if x \<in> set out then out else out @ [x])"

definition extractTagTokens :: "jsstring \<Rightarrow> jsstring list" where
  "extractTagTokens userMsg =
     foldl setAdd
       (foldl setAdd [] (map toLowerCase (matchAll matchAttackTag userMsg)))
       (map toLowerCase (matchAll matchNistTag userMsg))"

text \<open>
  \<^verbatim>\<open>
  function userExplicitTagIntent(userMsg: string): boolean {
    const s = String(userMsg ?? "").toLowerCase();
    if (s.includes("mitre") || s.includes("att&ck") || s.includes("attack.")) return true;
    if (s.includes("nist")) return true;
    return extractTagTokens(userMsg).length > 0;
  }
  \<close>
\<close>

definition userExplicitTagIntent :: "jsstring \<Rightarrow> bool" where
  "userExplicitTagIntent userMsg =
     (let s = toLowerCase userMsg in
      if includesStr s (lit ''mitre'') \<or> includesStr s (lit ''att&ck'')
         \<or> includesStr s (lit ''attack.'') then True
      else if includesStr s (lit ''nist'') then True
      else extractTagTokens userMsg \<noteq> [])"

definition containsNetworkActivityIntent :: "jsstring \<Rightarrow> bool" where
  "containsNetworkActivityIntent userMsg =
     (let s = toLowerCase userMsg in
      if includesStr s (lit ''network activity'') then True
      else if includesStr s (lit ''egress'') \<or> includesStr s (lit ''ingress'') then True
      else if includesStr userMsg [0x7f51, 0x7edc] then True
      else False)"

section \<open>The security plan\<close>

datatype VizKind = KNone | KSingle | KTable | KBar | KPie | KLine
datatype Template = TCount | TTable | TCountBy | TTrend
datatype GroupBy = GSeverity | GNodePodContainer | GRecentNetworkActivity | GTag
datatype Split = SplitNone | SplitSeverity
datatype Severity = CRITICAL | WARNING | INFO

record OutputSpec =
  kind :: VizKind
  title :: jsstring
  template :: Template
  group_by :: "GroupBy option"
  limit :: "int option"
  span :: "jsstring option"
  split :: "Split option"

record Filters =
  severity_exact :: "Severity list option"
  description_like :: "jsstring option"
  details_like :: "jsstring option"
  node_like :: "jsstring option"
  has_network_activity :: "bool option"
  tags_exact :: "jsstring list option"

record Plan =
  language :: Language
  earliest_time :: jsstring
  latest_time :: jsstring
  filters :: Filters
  outputs :: "OutputSpec list"

definition parseKind :: "jsstring \<Rightarrow> VizKind option" where
  "parseKind s =
     (if s = lit ''none'' then Some KNone
      else if s = lit ''single'' then Some KSingle
      else if s = lit ''table'' then Some KTable
      else if s = lit ''bar'' then Some KBar
      else if s = lit ''pie'' then Some KPie
      else if s = lit ''line'' then Some KLine
      else None)"

definition parseTemplate :: "jsstring \<Rightarrow> Template option" where
  "parseTemplate s =
     (if s = lit ''count'' then Some TCount
      else if s = lit ''table'' then Some TTable
      else if s = lit ''count_by'' then Some TCountBy
      else if s = lit ''trend'' then Some TTrend
      else None)"

definition parseGroupBy :: "jsstring \<Rightarrow> GroupBy option" where
  "parseGroupBy s =
     (if s = lit ''Severity'' then Some GSeverity
      else if s = lit ''node_pod_container'' then Some GNodePodContainer
      else if s = lit ''recent_network_activity'' then Some GRecentNetworkActivity
      else if s = lit ''tag'' then Some GTag
      else None)"

definition parseSplit :: "jsstring \<Rightarrow> Split option" where
  "parseSplit s =
     (if s = lit ''none'' then Some SplitNone
      else if s = lit ''severity'' then Some SplitSeverity
      else None)"

text \<open>
  \<^verbatim>\<open>
  for (const o of outputsIn) {
    const kind = allowedKind.has(String(o?.kind)) ? (String(o.kind) as VizKind) : "none";
    const template = allowedTemplate.has(String(o?.template)) ? (String(o.template) as Template) : "table";
    const rawTitle = o?.title;
    const title = typeof rawTitle === "string" && rawTitle.trim() ? rawTitle.trim() : "Result";
    const spec: OutputSpec = { kind, template, title };
    if (template === "count_by") {
      spec.group_by = allowedGroup.has(String(o?.group_by)) ? (String(o.group_by) as GroupBy) : "Severity";
      spec.limit = clampInt(o?.limit, 3, 50, 10);
      if (spec.kind !== "bar" && spec.kind !== "pie") spec.kind = "bar";
    }
    if (template === "trend") {
      const rawSpan = o?.span;
      spec.span = typeof rawSpan === "string" && rawSpan.trim() ? rawSpan.trim() : "5m";
      spec.split = allowedSplit.has(String(o?.split)) ? (String(o.split) as "none" | "severity") : "none";
      spec.kind = "line";
    }
    if (template === "count") spec.kind = "single";
    if (template === "table") {
      spec.kind = "table";
      spec.limit = clampInt(o?.limit, 5, 200, 50);
    }
    out.push(spec);
  }
  \<close>
  \<open>normalizeOutput\<close> is the body of the loop; \<open>None\<close> is a TypeError thrown by one of
  the conversions.
\<close>

definition normalizeOutput :: "host \<Rightarrow> jsval \<Rightarrow> OutputSpec option" where
  "normalizeOutput h o' =
     do {
       kindText \<leftarrow> toStringJS (numberToString h) (getProp o' ''kind'');
       templateText \<leftarrow> toStringJS (numberToString h) (getProp o' ''template'');
       let kind0 = (case parseKind kindText of Some k \<Rightarrow> k | None \<Rightarrow> KNone);
       let template0 = (case parseTemplate templateText of Some t \<Rightarrow> t | None \<Rightarrow> TTable);
       let title0 = (case trimmedString (getProp o' ''title'') of Some t \<Rightarrow> t | None \<Rightarrow> lit ''Result'');
       let spec = \<lparr>kind = kind0, title = title0, template = template0, group_by = None,
                   limit = None, span = None, split = None\<rparr>;
       spec1 \<leftarrow>
         (if template0 = TCountBy then
            do {
              groupText \<leftarrow> toStringJS (numberToString h) (getProp o' ''group_by'');
              n \<leftarrow> clampInt h (getProp o' ''limit'') 3 50 10;
              Some (spec\<lparr>group_by := Some (case parseGroupBy groupText of Some g \<Rightarrow> g | None \<Rightarrow> GSeverity),
                         limit := Some n,
                         kind := (if kind spec \<noteq> KBar \<and> kind spec \<noteq> KPie then KBar else kind spec)\<rparr>)
            }
          else Some spec);
       spec2 \<leftarrow>
         (if template0 = TTrend then
            do {
              splitText \<leftarrow> toStringJS (numberToString h) (getProp o' ''split'');
              Some (spec1\<lparr>span := Some (case trimmedString (getProp o' ''span'') of
                                           Some t \<Rightarrow> t | None \<Rightarrow> lit ''5m''),
                          split := Some (case parseSplit splitText of Some t \<Rightarrow> t | None \<Rightarrow> SplitNone),
                          kind := KLine\<rparr>)
            }
          else Some spec1);
       let spec3 = (if template0 = TCount then spec2\<lparr>kind := KSingle\<rparr> else spec2);
       (if template0 = TTable then
          do {
            n \<leftarrow> clampInt h (getProp o' ''limit'') 5 200 50;
            Some (spec3\<lparr>kind := KTable, limit := Some n\<rparr>)
          }
        else Some spec3)
     }"

fun normalizeOutputsLoop :: "host \<Rightarrow> jsval list \<Rightarrow> OutputSpec list option" where
  "normalizeOutputsLoop h [] = Some []"
| "normalizeOutputsLoop h (o' # os) =
     do {
       spec \<leftarrow> normalizeOutput h o';
       rest \<leftarrow> normalizeOutputsLoop h os;
       Some (spec # rest)
     }"

definition normalizeOutputs :: "host \<Rightarrow> jsval \<Rightarrow> OutputSpec list option" where
  "normalizeOutputs h rawOutputs =
     (case rawOutputs of JArr os \<Rightarrow> normalizeOutputsLoop h os | _ \<Rightarrow> Some [])"

subsection \<open>normalizePlan\<close>

text \<open>\<open>process.env.X || dflt\<close>.\<close>

definition envOr :: "jsstring option \<Rightarrow> jsstring \<Rightarrow> jsstring" where
  "envOr v dflt = (case v of Some s \<Rightarrow> (if s = [] then dflt else s) | None \<Rightarrow> dflt)"

text \<open>\<open>a ?? b\<close>.\<close>

definition nullish :: "jsval \<Rightarrow> jsval \<Rightarrow> jsval" where
  "nullish a b = (if a = JUndefined \<or> a = JNull then b else a)"

definition parseSeverity :: "jsstring \<Rightarrow> Severity option" where
  "parseSeverity s =
     (if s = lit ''CRITICAL'' then Some CRITICAL
      else if s = lit ''WARNING'' then Some WARNING
      else if s = lit ''INFO'' then Some INFO
      else None)"

text \<open>
  \<open>sevRaw.map((x) => String(x || "").trim().toUpperCase()).filter(...)\<close>: the map
  runs over the whole array (and may throw) before the filter.
\<close>

fun cleanSeverities :: "host \<Rightarrow> jsval list \<Rightarrow> Severity list option" where
  "cleanSeverities h [] = Some []"
| "cleanSeverities h (x # xs) =
     do {
       s \<leftarrow> stringOrEmpty h x;
       rest \<leftarrow> cleanSeverities h xs;
       Some (case parseSeverity (toUpperCase (trim s)) of Some v \<Rightarrow> v # rest | None \<Rightarrow> rest)
     }"

text \<open>The test \<open>/^[a-z0-9._-]+$/\<close> (no flag).\<close>

definition isTagToken :: "jsstring \<Rightarrow> bool" where
  "isTagToken s =
     (s \<noteq> [] \<and> list_all (\<lambda>c. (97 \<le> c \<and> c \<le> 122) \<or> isDigit c \<or> c = 46 \<or> c = 95 \<or> c = 45) s)"

fun cleanTags :: "host \<Rightarrow> jsval list \<Rightarrow> jsstring list option" where
  "cleanTags h [] = Some []"
| "cleanTags h (x # xs) =
     do {
       s \<leftarrow> stringOrEmpty h x;
       rest \<leftarrow> cleanTags h xs;
       Some (if isTagToken (toLowerCase (trim s)) then toLowerCase (trim s) # rest else rest)
     }"

text \<open>
  \<open>normalizePlan(raw, userMsg)\<close> (lines 400 to 447 of the route handler): the time
  range, then the filters field by field, then the outputs. \<open>None\<close> is a TypeError.
\<close>

definition normalizePlan :: "host \<Rightarrow> jsval \<Rightarrow> jsstring \<Rightarrow> Plan option" where
  "normalizePlan h raw userMsg =
     do {
       let lang = detectLanguage userMsg;
       let earliest = (case trimmedString (getProp raw ''earliest_time'') of
                         Some t \<Rightarrow> t | None \<Rightarrow> envOr (DEFAULT_EARLIEST_TIME h) (lit ''-15m''));
       let latest = (case trimmedString (getProp raw ''latest_time'') of
                       Some t \<Rightarrow> t | None \<Rightarrow> envOr (DEFAULT_LATEST_TIME h) (lit ''now''));
       let rf = nullish (getProp raw ''filters'') (JObj []);
       let sevRaw = (case rf of
                       JObj kvs \<Rightarrow> nullish (getProp rf ''severity_exact'') (getProp rf ''severity'')
                     | JArr xs \<Rightarrow> nullish (getProp rf ''severity_exact'') (getProp rf ''severity'')
                     | _ \<Rightarrow> JUndefined);
       sev \<leftarrow> (case sevRaw of
                 JArr xs \<Rightarrow> map_option (\<lambda>cleaned. if cleaned \<noteq> [] then Some cleaned else None)
                              (cleanSeverities h xs)
               | _ \<Rightarrow> Some None);
       let net = (case getProp rf ''has_network_activity'' of JBool b \<Rightarrow> Some b | _ \<Rightarrow> None);
       tags \<leftarrow> (case getProp rf ''tags_exact'' of
                  JArr xs \<Rightarrow> map_option (\<lambda>cleaned. if cleaned \<noteq> [] then Some cleaned else None)
                               (cleanTags h xs)
                | _ \<Rightarrow> Some None);
       outs \<leftarrow> normalizeOutputs h (getProp raw ''outputs'');
       Some \<lparr>language = lang, earliest_time = earliest, latest_time = latest,
             filters = \<lparr>severity_exact = sev,
                        description_like = trimmedString (getProp rf ''description_like''),
                        details_like = trimmedString (getProp rf ''details_like''),
                        node_like = trimmedString (getProp rf ''node_like''),
                        has_network_activity = net,
                        tags_exact = tags\<rparr>,
             outputs = outs\<rparr>
     }"

subsection \<open>ensureGuardrails\<close>

text \<open>
  \<^verbatim>\<open>
  function ensureGuardrails(plan: Plan, userMsg: string) {
    plan.language = detectLanguage(userMsg);
    const tokens = extractTagTokens(userMsg);
    if (!userExplicitTagIntent(userMsg) || tokens.length === 0) {
      delete plan.filters.tags_exact;
    } else {
      plan.filters.tags_exact = tokens;
    }
    if (containsNetworkActivityIntent(userMsg) && typeof plan.filters.has_network_activity !== "boolean") {
      plan.filters.has_network_activity = true;
    }
    if (!Array.isArray(plan.outputs) || plan.outputs.length === 0) {
      plan.outputs = [{ kind: "table", title: "Events", template: "table", limit: 50 }];
    }
    const meaningful = plan.outputs.some((o) => o.kind !== "none");
    if (!meaningful) {
      plan.outputs = [{ kind: "table", title: "Events", template: "table", limit: 50 }];
    }
    plan.outputs = plan.outputs.slice(0, 4);
  }
  \<close>
  The plan is mutated in place; the model returns the plan after the call.
\<close>

definition eventsTable :: OutputSpec where
  "eventsTable = \<lparr>kind = KTable, title = lit ''Events'', template = TTable, group_by = None,
                   limit = Some 50, span = None, split = None\<rparr>"

definition ensureGuardrails :: "Plan \<Rightarrow> jsstring \<Rightarrow> Plan" where
  "ensureGuardrails plan userMsg =
     (let p1 = plan\<lparr>language := detectLanguage userMsg\<rparr>;
          tokens = extractTagTokens userMsg;
          p2 = (if \<not> userExplicitTagIntent userMsg \<or> tokens = []
                then p1\<lparr>filters := (filters p1)\<lparr>tags_exact := None\<rparr>\<rparr>
                else p1\<lparr>filters := (filters p1)\<lparr>tags_exact := Some tokens\<rparr>\<rparr>);
          p3 = (if containsNetworkActivityIntent userMsg \<and> has_network_activity (filters p2) = None
                then p2\<lparr>filters := (filters p2)\<lparr>has_network_activity := Some True\<rparr>\<rparr>
                else p2);
          p4 = (if outputs p3 = [] then p3\<lparr>outputs := [eventsTable]\<rparr> else p3);
          meaningful = list_ex (\<lambda>o'. kind o' \<noteq> KNone) (outputs p4);
          p5 = (if \<not> meaningful then p4\<lparr>outputs := [eventsTable]\<rparr> else p4)
      in p5\<lparr>outputs := take 4 (outputs p5)\<rparr>)"

text \<open>
  \<open>defaultPlan(userMsg)\<close>: the table of events, with a distribution put in front of it.
\<close>

definition defaultPlan :: "host \<Rightarrow> jsstring \<Rightarrow> Plan" where
  "defaultPlan h userMsg =
     (let outs0 = [eventsTable];
          outs1 = (if containsNetworkActivityIntent userMsg
                   then \<lparr>kind = KBar, title = lit ''Network Activity'', template = TCountBy,
                         group_by = Some GRecentNetworkActivity, limit = Some 10,
                         span = None, split = None\<rparr> # outs0
                   else \<lparr>kind = KBar, title = lit ''Severity'', template = TCountBy,
                         group_by = Some GSeverity, limit = Some 10,
                         span = None, split = None\<rparr> # outs0)
      in \<lparr>language = detectLanguage userMsg,
          earliest_time = envOr (DEFAULT_EARLIEST_TIME h) (lit ''-15m''),
          latest_time = envOr (DEFAULT_LATEST_TIME h) (lit ''now''),
          filters = \<lparr>severity_exact = None, description_like = None, details_like = None,
                     node_like = None, has_network_activity = None, tags_exact = None\<rparr>,
          outputs = take 4 outs1\<rparr>)"

text \<open>
  The planning stage of \<open>POST\<close> for the security workspace (lines 1442 to 1467).
  \<open>planObj\<close> is what \<open>extractJsonObjectLoose\<close> made of the planner's answer, \<open>None\<close>
  when the call failed or no object could be decoded. A throw inside the \<open>try\<close> block
  leaves \<open>plan\<close> null, and the default plan takes its place.
  \<^verbatim>\<open>
  let plan: Plan | null = null;
  try {
    ...
    if (planObj) {
      plan = normalizePlan(planObj, userMsg);
      ensureGuardrails(plan, userMsg);
    }
  } catch (e) { write("status", { stage: "planning_warning", message: msg }); }
  if (!plan) {
    plan = defaultPlan(userMsg);
    ensureGuardrails(plan, userMsg);
  }
  \<close>
\<close>

definition securityPlanStage :: "host \<Rightarrow> jsval option \<Rightarrow> jsstring \<Rightarrow> Plan" where
  "securityPlanStage h planObj userMsg =
     (let plan = (case planObj of
                    None \<Rightarrow> None
                  | Some raw \<Rightarrow>
                      (if truthy raw
                       then map_option (\<lambda>p. ensureGuardrails p userMsg) (normalizePlan h raw userMsg)
                       else None))
      in case plan of
           Some p \<Rightarrow> p
         | None \<Rightarrow> ensureGuardrails (defaultPlan h userMsg) userMsg)"

section \<open>The observability plan\<close>

datatype ObservabilityMcp = Grafana | Hubble | Ndi
datatype ObservabilityTool = QueryDashboardTimeseries | FetchFlowMetrics | FetchAnomalies
datatype ObservabilityTarget =
    HubbleL7HttpMetricsByWorkload
  | NvidiaDcgmExporterDashboard
  | VllmDashboard
  | AiServingFoundationInstructVllm
  | FdtnAiFoundationSec8BInstruct
  | DefaultCluster
datatype ObservabilityMetric =
    SuccessCountPerMinute | SuccessRate | GpuUtilization | PolicyDropFlows | AnomalyEvents
datatype ObservabilityViz = VizLine | VizNetwork

record ObservabilityRequest =
  mcp :: ObservabilityMcp
  tool :: ObservabilityTool
  target :: ObservabilityTarget
  metric :: ObservabilityMetric
  viz :: ObservabilityViz
  req_title :: jsstring

record ObservabilityPlan =
  obs_language :: Language
  obs_earliest_time :: jsstring
  obs_latest_time :: jsstring
  requests :: "ObservabilityRequest list"

datatype ObservabilityIntent =
  IntentSuccessRate | IntentSuccessCount | IntentAnomaly | IntentGpu | IntentUnknown

text \<open>
  The sets \<open>OBSERVABILITY_ALLOWED_...\<close>: \<open>Set.has\<close> compares without conversion, so
  only a string with the exact text is a member.
\<close>

definition allowedMcp :: "jsval \<Rightarrow> ObservabilityMcp option" where
  "allowedMcp v =
     (if v = JStr (lit ''grafana'') then Some Grafana
      else if v = JStr (lit ''hubble'') then Some Hubble
      else if v = JStr (lit ''ndi'') then Some Ndi
      else None)"

definition allowedTool :: "jsval \<Rightarrow> ObservabilityTool option" where
  "allowedTool v =
     (if v = JStr (lit ''query_dashboard_timeseries'') then Some QueryDashboardTimeseries
      else if v = JStr (lit ''fetch_flow_metrics'') then Some FetchFlowMetrics
      else if v = JStr (lit ''fetch_anomalies'') then Some FetchAnomalies
      else None)"

definition targetName :: "ObservabilityTarget \<Rightarrow> jsstring" where
  "targetName t =
     (case t of
        HubbleL7HttpMetricsByWorkload \<Rightarrow> lit ''hubble-l7-http-metrics-by-workload''
      | NvidiaDcgmExporterDashboard \<Rightarrow> lit ''nvidia-dcgm-exporter-dashboard''
      | VllmDashboard \<Rightarrow> lit ''vllm-dashboard''
      | AiServingFoundationInstructVllm \<Rightarrow> lit ''ai-serving/foundation-instruct-vllm''
      | FdtnAiFoundationSec8BInstruct \<Rightarrow> lit ''fdtn-ai/Foundation-Sec-8B-Instruct''
      | DefaultCluster \<Rightarrow> lit ''default-cluster'')"

definition allowedTarget :: "jsval \<Rightarrow> ObservabilityTarget option" where
  "allowedTarget v =
     (if v = JStr (targetName HubbleL7HttpMetricsByWorkload) then Some HubbleL7HttpMetricsByWorkload
      else if v = JStr (targetName NvidiaDcgmExporterDashboard) then Some NvidiaDcgmExporterDashboard
      else if v = JStr (targetName VllmDashboard) then Some VllmDashboard
      else if v = JStr (targetName AiServingFoundationInstructVllm) then Some AiServingFoundationInstructVllm
      else if v = JStr (targetName FdtnAiFoundationSec8BInstruct) then Some FdtnAiFoundationSec8BInstruct
      else if v = JStr (targetName DefaultCluster) then Some DefaultCluster
      else None)"

definition metricName :: "ObservabilityMetric \<Rightarrow> jsstring" where
  "metricName m =
     (case m of
        SuccessCountPerMinute \<Rightarrow> lit ''success_count_per_minute''
      | SuccessRate \<Rightarrow> lit ''success_rate''
      | GpuUtilization \<Rightarrow> lit ''gpu_utilization''
      | PolicyDropFlows \<Rightarrow> lit ''policy_drop_flows''
      | AnomalyEvents \<Rightarrow> lit ''anomaly_events'')"

definition allowedMetric :: "jsval \<Rightarrow> ObservabilityMetric option" where
  "allowedMetric v =
     (if v = JStr (metricName SuccessCountPerMinute) then Some SuccessCountPerMinute
      else if v = JStr (metricName SuccessRate) then Some SuccessRate
      else if v = JStr (metricName GpuUtilization) then Some GpuUtilization
      else if v = JStr (metricName PolicyDropFlows) then Some PolicyDropFlows
      else if v = JStr (metricName AnomalyEvents) then Some AnomalyEvents
      else None)"

definition allowedViz :: "jsval \<Rightarrow> ObservabilityViz option" where
  "allowedViz v =
     (if v = JStr (lit ''line'') then Some VizLine
      else if v = JStr (lit ''network'') then Some VizNetwork
      else None)"

text \<open>
  \<^verbatim>\<open>
  function isAllowedObservabilityCombo(req: ObservabilityRequest): boolean {
    if (req.mcp === "grafana") {
      if (req.tool !== "query_dashboard_timeseries" || req.viz !== "line") return false;
      if (req.target === "vllm-dashboard" && req.metric === "success_count_per_minute") return true;
      if (req.target === "hubble-l7-http-metrics-by-workload" && req.metric === "success_rate") return true;
      if (req.target === "nvidia-dcgm-exporter-dashboard" && req.metric === "gpu_utilization") return true;
      return false;
    }
    if (req.mcp === "hubble") {
      return req.tool === "fetch_flow_metrics" && req.viz === "network"
        && req.target === "ai-serving/foundation-instruct-vllm" && req.metric === "policy_drop_flows";
    }
    return req.mcp === "ndi" && req.tool === "fetch_anomalies" && req.viz === "network"
      && req.target === "default-cluster" && req.metric === "anomaly_events";
  }
  \<close>
\<close>

definition isAllowedObservabilityCombo :: "ObservabilityRequest \<Rightarrow> bool" where
  "isAllowedObservabilityCombo req =
     (if mcp req = Grafana then
        (if tool req \<noteq> QueryDashboardTimeseries \<or> viz req \<noteq> VizLine then False
         else if target req = VllmDashboard \<and> metric req = SuccessCountPerMinute then True
         else if target req = HubbleL7HttpMetricsByWorkload \<and> metric req = SuccessRate then True
         else if target req = NvidiaDcgmExporterDashboard \<and> metric req = GpuUtilization then True
         else False)
      else if mcp req = Hubble then
        (tool req = FetchFlowMetrics \<and> viz req = VizNetwork
         \<and> target req = AiServingFoundationInstructVllm \<and> metric req = PolicyDropFlows)
      else
        (mcp req = Ndi \<and> tool req = FetchAnomalies \<and> viz req = VizNetwork
         \<and> target req = DefaultCluster \<and> metric req = AnomalyEvents))"

text \<open>
  The loop of \<open>normalizeObservabilityPlan\<close> (lines 531 to 551), one raw request at a
  time: a request with a field outside its set, or with a combination that is not
  allowed, is skipped (\<open>continue\<close>); the others are pushed.
\<close>

definition checkedRequest :: "jsval \<Rightarrow> ObservabilityRequest option" where
  "checkedRequest r =
     (let reqObj = nullish r (JObj []);
          title0 = (case trimmedString (getProp reqObj ''title'') of
                      Some t \<Rightarrow> t | None \<Rightarrow> lit ''Observability'')
      in case (allowedMcp (getProp reqObj ''mcp''), allowedTool (getProp reqObj ''tool''),
               allowedTarget (getProp reqObj ''target''), allowedMetric (getProp reqObj ''metric''),
               allowedViz (getProp reqObj ''viz'')) of
           (Some m, Some t, Some tg, Some me, Some v) \<Rightarrow>
             (let req = \<lparr>mcp = m, tool = t, target = tg, metric = me, viz = v, req_title = title0\<rparr>
              in if \<not> isAllowedObservabilityCombo req then None else Some req)
         | _ \<Rightarrow> None)"

fun normalizeRequestsLoop :: "jsval list \<Rightarrow> ObservabilityRequest list \<Rightarrow> ObservabilityRequest list" where
  "normalizeRequestsLoop [] acc = acc"
| "normalizeRequestsLoop (r # rs) acc =
     (case checkedRequest r of
        None \<Rightarrow> normalizeRequestsLoop rs acc
      | Some req \<Rightarrow> normalizeRequestsLoop rs (acc @ [req]))"

definition normalizeObservabilityPlan :: "jsval \<Rightarrow> jsstring \<Rightarrow> ObservabilityPlan" where
  "normalizeObservabilityPlan raw userMsg =
     (let lang = detectLanguage userMsg;
          et = getProp raw ''earliest_time'';
          earliest = (if et = JStr (lit ''-15m'') \<or> et = JStr (lit ''-30m'') \<or> et = JStr (lit ''-60m'')
                      then (case et of JStr s \<Rightarrow> s | _ \<Rightarrow> lit ''-15m'')
                      else lit ''-15m'');
          latest = (if getProp raw ''latest_time'' = JStr (lit ''now'') then lit ''now'' else lit ''now'');
          requestsIn = (case getProp raw ''requests'' of JArr rs \<Rightarrow> rs | _ \<Rightarrow> []);
          reqs = normalizeRequestsLoop requestsIn []
      in \<lparr>obs_language = lang, obs_earliest_time = earliest, obs_latest_time = latest,
          requests = take 3 reqs\<rparr>)"

subsection \<open>Canonical requests of the four intents\<close>

definition anomalyKeyword :: jsstring where
  "anomalyKeyword = [0x901a, 0x4fe1, 0x5f02, 0x5e38]"

definition successRateKeyword :: jsstring where
  "successRateKeyword = [0x6210, 0x529f, 0x7387]"

definition successCountKeyword :: jsstring where
  "successCountKeyword = [0x6210, 0x529f, 0x6b21, 0x6570]"

definition hubbleRequest :: "Language \<Rightarrow> ObservabilityRequest" where
  "hubbleRequest lang =
     \<lparr>mcp = Hubble, tool = FetchFlowMetrics, target = AiServingFoundationInstructVllm,
      metric = PolicyDropFlows, viz = VizNetwork,
      req_title = (if lang = Zh then [0x901a, 0x4fe1, 0x5f02, 0x5e38, 0x62d3, 0x6251]
                   else lit ''Communication anomaly topology'')\<rparr>"

definition ndiRequest :: "Language \<Rightarrow> ObservabilityRequest" where
  "ndiRequest lang =
     \<lparr>mcp = Ndi, tool = FetchAnomalies, target = DefaultCluster,
      metric = AnomalyEvents, viz = VizNetwork,
      req_title = (if lang = Zh then [0x4f4e, 0x5c42, 0x7f51, 0x7edc, 0x5f02, 0x5e38]
                   else lit ''Underlay anomalies'')\<rparr>"

definition successRateRequest :: "Language \<Rightarrow> ObservabilityRequest" where
  "successRateRequest lang =
     \<lparr>mcp = Grafana, tool = QueryDashboardTimeseries, target = HubbleL7HttpMetricsByWorkload,
      metric = SuccessRate, viz = VizLine,
      req_title = (if lang = Zh then [0x6210, 0x529f, 0x7387, 0x8d8b, 0x52bf]
                   else lit ''Success rate trend'')\<rparr>"

definition gpuRequest :: "Language \<Rightarrow> ObservabilityRequest" where
  "gpuRequest lang =
     \<lparr>mcp = Grafana, tool = QueryDashboardTimeseries, target = NvidiaDcgmExporterDashboard,
      metric = GpuUtilization, viz = VizLine,
      req_title = (if lang = Zh then lit ''GPU'' @ [0x5229, 0x7528, 0x7387, 0x8d8b, 0x52bf]
                   else lit ''GPU utilization trend'')\<rparr>"

definition successCountRequest :: "Language \<Rightarrow> ObservabilityRequest" where
  "successCountRequest lang =
     \<lparr>mcp = Grafana, tool = QueryDashboardTimeseries, target = VllmDashboard,
      metric = SuccessCountPerMinute, viz = VizLine,
      req_title = (if lang = Zh then lit ''vLLM'' @ [0x6210, 0x529f, 0x6b21, 0x6570, 0x8d8b, 0x52bf]
                   else lit ''vLLM success count trend'')\<rparr>"

text \<open>
  \<open>fallbackObservabilityPlan(userMsg)\<close> (lines 556 to 642): the plan used when the
  planner gave no usable request.
\<close>

definition fallbackObservabilityPlan :: "jsstring \<Rightarrow> ObservabilityPlan" where
  "fallbackObservabilityPlan userMsg =
     (let lang = detectLanguage userMsg;
          s = toLowerCase userMsg;
          isAnomaly = (includesStr s anomalyKeyword \<or> includesStr s (lit ''anomaly'')
                       \<or> includesStr s (lit ''abnormal'') \<or> includesStr s (lit ''drop''));
          isSuccessRate = (includesStr s successRateKeyword \<or> includesStr s (lit ''success rate''));
          isGpu = includesStr s (lit ''gpu'')
      in \<lparr>obs_language = lang, obs_earliest_time = lit ''-15m'', obs_latest_time = lit ''now'',
          requests = (if isAnomaly then [hubbleRequest lang, ndiRequest lang]
                      else if isSuccessRate then [successRateRequest lang]
                      else if isGpu then [gpuRequest lang]
                      else [successCountRequest lang])\<rparr>)"

text \<open>
  \<^verbatim>\<open>
  function detectObservabilityIntent(userMsg: string): ObservabilityIntent {
    const s = userMsg.toLowerCase();
    if (s.includes(<anomaly, in Chinese>) || s.includes("anomaly") || s.includes("abnormal")
        || s.includes("drop")) return "anomaly";
    if (s.includes(<success rate, in Chinese>) || s.includes("success rate")) return "success_rate";
    if (s.includes("gpu")) return "gpu";
    if (s.includes(<success count, in Chinese>) || s.includes("success count")) return "success_count";
    return "unknown";
  }
  \<close>
\<close>

definition detectObservabilityIntent :: "jsstring \<Rightarrow> ObservabilityIntent" where
  "detectObservabilityIntent userMsg =
     (let s = toLowerCase userMsg in
      if includesStr s anomalyKeyword \<or> includesStr s (lit ''anomaly'')
         \<or> includesStr s (lit ''abnormal'') \<or> includesStr s (lit ''drop'') then IntentAnomaly
      else if includesStr s successRateKeyword \<or> includesStr s (lit ''success rate'')
        then IntentSuccessRate
      else if includesStr s (lit ''gpu'') then IntentGpu
      else if includesStr s successCountKeyword \<or> includesStr s (lit ''success count'')
        then IntentSuccessCount
      else IntentUnknown)"

definition buildObservabilityRequest :: "ObservabilityIntent \<Rightarrow> Language \<Rightarrow> ObservabilityRequest list" where
  "buildObservabilityRequest intent lang =
     (if intent = IntentAnomaly then [hubbleRequest lang, ndiRequest lang]
      else if intent = IntentSuccessRate then [successRateRequest lang]
      else if intent = IntentGpu then [gpuRequest lang]
      else [successCountRequest lang])"

text \<open>
  \<^verbatim>\<open>
  function enforceObservabilityIntent(plan: ObservabilityPlan, userMsg: string): ObservabilityPlan {
    const intent = detectObservabilityIntent(userMsg);
    if (intent === "unknown") return plan;
    const requests = buildObservabilityRequest(intent, plan.language);
    return { ...plan, requests };
  }
  \<close>
\<close>

definition enforceObservabilityIntent :: "ObservabilityPlan \<Rightarrow> jsstring \<Rightarrow> ObservabilityPlan" where
  "enforceObservabilityIntent plan userMsg =
     (let intent = detectObservabilityIntent userMsg in
      if intent = IntentUnknown then plan
      else plan\<lparr>requests := buildObservabilityRequest intent (obs_language plan)\<rparr>)"

text \<open>
  The planning stage of \<open>POST\<close> for the observability workspace (lines 1369 to 1393):
  the normalized plan when the planner's answer decoded to an object, the fallback plan
  when there is none or it has no request, then the intent enforcement.
\<close>

definition observabilityPlanStage :: "jsval option \<Rightarrow> jsstring \<Rightarrow> ObservabilityPlan" where
  "observabilityPlanStage planObj userMsg =
     (let plan = (case planObj of
                    None \<Rightarrow> None
                  | Some raw \<Rightarrow>
                      (if truthy raw then Some (normalizeObservabilityPlan raw userMsg) else None));
          plan1 = (case plan of
                     None \<Rightarrow> fallbackObservabilityPlan userMsg
                   | Some p \<Rightarrow> (if requests p = [] then fallbackObservabilityPlan userMsg else p))
      in enforceObservabilityIntent plan1 userMsg)"

section \<open>The query template compiler\<close>

definition quoted :: "jsstring \<Rightarrow> jsstring" where
  "quoted s = dquote # s @ [dquote]"

text \<open>
  \<^verbatim>\<open>
  const BASE_SEARCH = [
    '| savedsearch "Event_Table"',
    '| eval _time=strptime(Time,"%Y-%m-%d %H:%M:%S")',
    '| rename "Recent Network Activity" as recent_network_activity "Node: Pod/Container" as node_pod_container',
  ].join("\n");
  \<close>
\<close>

definition BASE_SEARCH :: jsstring where
  "BASE_SEARCH =
     join [newline]
       [lit ''| savedsearch '' @ quoted (lit ''Event_Table''),
        lit ''| eval _time=strptime(Time,'' @ quoted (lit ''%Y-%m-%d %H:%M:%S'') @ lit '')'',
        lit ''| rename '' @ quoted (lit ''Recent Network Activity'')
          @ lit '' as recent_network_activity '' @ quoted (lit ''Node: Pod/Container'')
          @ lit '' as node_pod_container'']"

definition severityName :: "Severity \<Rightarrow> jsstring" where
  "severityName s =
     (case s of CRITICAL \<Rightarrow> lit ''CRITICAL'' | WARNING \<Rightarrow> lit ''WARNING'' | INFO \<Rightarrow> lit ''INFO'')"

text \<open>
  \<^verbatim>\<open>
  function buildFilterPipeline(filters: Filters): string[] {
    const lines: string[] = [];
    if (filters.tags_exact && filters.tags_exact.length > 0) {
      lines.push('| eval __tags=split(Tags, ", ")');
      const ors = filters.tags_exact.map((t) => `mvfind(__tags,"${escapeSplString(t)}")>=0`).join(" OR ");
      lines.push(`| where (${ors})`);
    }
    const clauses: string[] = [];
    if (filters.severity_exact && filters.severity_exact.length > 0) {
      const list = filters.severity_exact.map((s) => `"${escapeSplString(s)}"`).join(",");
      clauses.push(`in(Severity, ${list})`);
    }
    if (filters.description_like && filters.description_like.length > 0) {
      const v = escapeSplString(filters.description_like);
      clauses.push(`like(Description, "%${v}%")`);
    }
    ... details_like (Details) and node_like (node_pod_container) in the same way ...
    if (typeof filters.has_network_activity === "boolean") {
      clauses.push(filters.has_network_activity ? `recent_network_activity!="N/A"` : `recent_network_activity="N/A"`);
    }
    if (clauses.length > 0) lines.push(`| where ${clauses.join(" AND ")}`);
    return lines;
  }
  \<close>
\<close>

definition tagLines :: "Filters \<Rightarrow> jsstring list" where
  "tagLines f =
     (case tags_exact f of
        None \<Rightarrow> []
      | Some ts \<Rightarrow>
          (if ts = [] then []
           else [lit ''| eval __tags=split(Tags, '' @ quoted (lit '', '') @ lit '')'',
                 lit ''| where ('' @
                   join (lit '' OR '')
                     (map (\<lambda>t. lit ''mvfind(__tags,'' @ quoted (escapeSplString t) @ lit '')>=0'') ts)
                   @ lit '')'']))"

definition likeClause :: "string \<Rightarrow> jsstring option \<Rightarrow> jsstring list" where
  "likeClause field v =
     (case v of
        None \<Rightarrow> []
      | Some s \<Rightarrow>
          (if s = [] then []
           else [lit ''like('' @ lit field @ lit '', '' @ quoted (lit ''%'' @ escapeSplString s @ lit ''%'')
                 @ lit '')'']))"

definition filterClauses :: "Filters \<Rightarrow> jsstring list" where
  "filterClauses f =
     (case severity_exact f of
        None \<Rightarrow> []
      | Some sevs \<Rightarrow>
          (if sevs = [] then []
           else [lit ''in(Severity, '' @
                 join (lit '','') (map (\<lambda>s. quoted (escapeSplString (severityName s))) sevs)
                 @ lit '')'']))
     @ likeClause ''Description'' (description_like f)
     @ likeClause ''Details'' (details_like f)
     @ likeClause ''node_pod_container'' (node_like f)
     @ (case has_network_activity f of
          None \<Rightarrow> []
        | Some b \<Rightarrow>
            [if b then lit ''recent_network_activity!='' @ quoted (lit ''N/A'')
             else lit ''recent_network_activity='' @ quoted (lit ''N/A'')])"

definition buildFilterPipeline :: "Filters \<Rightarrow> jsstring list" where
  "buildFilterPipeline f =
     tagLines f
     @ (if filterClauses f \<noteq> [] then [lit ''| where '' @ join (lit '' AND '') (filterClauses f)]
        else [])"

text \<open>
  \<open>splCount\<close>, \<open>splTable\<close>, \<open>splCountBy\<close> and \<open>splTrend\<close> (lines 761 to 828): the base
  search, the filter lines and the tail of the template, joined by newlines.
\<close>

definition splCount :: "Filters \<Rightarrow> jsstring" where
  "splCount f = join [newline] ([BASE_SEARCH] @ buildFilterPipeline f @ [lit ''| stats count as value''])"

definition splTable :: "Filters \<Rightarrow> int \<Rightarrow> jsstring" where
  "splTable f limit' =
     (let n = clampNum (Num (of_int limit')) 5 200 50 in
      join [newline]
        ([BASE_SEARCH] @ buildFilterPipeline f @
         [lit ''| sort 0 -_time'',
          lit ''| head '' @ showInt n,
          lit ''| table Time Severity Description Tags Details recent_network_activity node_pod_container'',
          lit ''| rename recent_network_activity as '' @ quoted (lit ''Recent Network Activity'')
            @ lit '' node_pod_container as '' @ quoted (lit ''Node: Pod/Container'')]))"

definition splCountBy :: "Filters \<Rightarrow> GroupBy \<Rightarrow> int \<Rightarrow> jsstring" where
  "splCountBy f groupBy limit' =
     (let n = clampNum (Num (of_int limit')) 3 50 10 in
      if groupBy = GTag then
        join [newline]
          ([BASE_SEARCH] @ buildFilterPipeline f @
           [lit ''| eval tag=split(Tags, '' @ quoted (lit '', '') @ lit '')'',
            lit ''| mvexpand tag'',
            lit ''| stats count as count by tag'',
            lit ''| sort 0 -count'',
            lit ''| head '' @ showInt n])
      else if groupBy = GSeverity then
        join [newline]
          ([BASE_SEARCH] @ buildFilterPipeline f @
           [lit ''| stats count as count by Severity'', lit ''| sort 0 -count'', lit ''| head '' @ showInt n])
      else if groupBy = GNodePodContainer then
        join [newline]
          ([BASE_SEARCH] @ buildFilterPipeline f @
           [lit ''| stats count as count by node_pod_container'', lit ''| sort 0 -count'',
            lit ''| head '' @ showInt n])
      else
        join [newline]
          ([BASE_SEARCH] @ buildFilterPipeline f @
           [lit ''| stats count as count by recent_network_activity'', lit ''| sort 0 -count'',
            lit ''| head '' @ showInt n]))"

text \<open>
  \<^verbatim>\<open>
  function splTrend(filters: Filters, span: string, split: "none" | "severity"): string {
    const fp = buildFilterPipeline(filters);
    const bucket = typeof span === "string" && span.trim() ? span.trim() : "5m";
    if (split === "severity") {
      return [BASE_SEARCH, ...fp, `| timechart span=${bucket}`, "  count as total",
        '  count(eval(Severity="CRITICAL")) as critical',
        '  count(eval(Severity="WARNING")) as warning',
        '  count(eval(Severity="INFO")) as info',
        '| eval time=strftime(_time,"%H:%M")',
        "| fields time total critical warning info"].join("\n");
    }
    return [BASE_SEARCH, ...fp, `| timechart span=${bucket} count as total`,
      '| eval time=strftime(_time,"%H:%M")', "| fields time total"].join("\n");
  }
  \<close>
\<close>

definition splTrend :: "Filters \<Rightarrow> jsstring \<Rightarrow> Split \<Rightarrow> jsstring" where
  "splTrend f span' split' =
     (let fp = buildFilterPipeline f;
          bucket = (if trim span' \<noteq> [] then trim span' else lit ''5m'')
      in if split' = SplitSeverity then
           join [newline]
             ([BASE_SEARCH] @ fp @
              [lit ''| timechart span='' @ bucket,
               lit ''  count as total'',
               lit ''  count(eval(Severity='' @ quoted (lit ''CRITICAL'') @ lit '')) as critical'',
               lit ''  count(eval(Severity='' @ quoted (lit ''WARNING'') @ lit '')) as warning'',
               lit ''  count(eval(Severity='' @ quoted (lit ''INFO'') @ lit '')) as info'',
               lit ''| eval time=strftime(_time,'' @ quoted (lit ''%H:%M'') @ lit '')'',
               lit ''| fields time total critical warning info''])
         else
           join [newline]
             ([BASE_SEARCH] @ fp @
              [lit ''| timechart span='' @ bucket @ lit '' count as total'',
               lit ''| eval time=strftime(_time,'' @ quoted (lit ''%H:%M'') @ lit '')'',
               lit ''| fields time total'']))"

section \<open>Panels\<close>

datatype ChartValue = CStr jsstring | CNum jsnum
type_synonym ChartDatum = "(jsstring \<times> ChartValue) list"

datatype TableValue = TStr jsstring | TNum jsnum | TNull | TUndefined
type_synonym TableRow = "(jsstring \<times> TableValue) list"

type_synonym McpRow = "(jsstring \<times> jsval) list"

datatype NodeStatus = StatusOk | StatusAlert

record NetworkNode =
  node_id :: jsstring
  node_label :: jsstring
  node_status :: NodeStatus

record NetworkEdge =
  edge_from :: jsstring
  edge_to :: jsstring
  edge_label :: "jsstring option"

record NetworkAnnotation =
  ann_nodeId :: jsstring
  ann_label :: jsstring

record NetworkStats =
  policy_drop :: "jsnum option"
  anomalies :: "jsnum option"

record NetworkRow =
  row_source :: jsstring
  row_nodes :: "NetworkNode list"
  row_edges :: "NetworkEdge list"
  row_annotations :: "NetworkAnnotation list option"
  row_stats :: "NetworkStats option"

datatype DrilldownType = DrillSeverity | DrillTag | DrillNode | DrillNet

text \<open>
  The six variants of \<open>Panel\<close>. Fields in the order of the type declaration:
  \<open>panel_id\<close>, \<open>title\<close>, then \<open>spl, label, value\<close> (single), \<open>spl, columns, rows\<close>
  (table), \<open>spl, xKey, yKey, data, drilldownType\<close> (bar and pie),
  \<open>spl, xKey, seriesKeys, data\<close> (line), \<open>rows\<close> (network).
\<close>

datatype Panel =
    PSingle jsstring jsstring jsstring jsstring jsnum
  | PTable jsstring jsstring jsstring "jsstring list" "TableRow list"
  | PBar jsstring jsstring jsstring jsstring jsstring "ChartDatum list" DrilldownType
  | PPie jsstring jsstring jsstring jsstring jsstring "ChartDatum list" DrilldownType
  | PLine jsstring jsstring jsstring jsstring "jsstring list" "ChartDatum list"
  | PNetwork jsstring jsstring "NetworkRow list"

datatype PanelKind = PKSingle | PKTable | PKBar | PKPie | PKLine | PKNetwork

fun panelKind :: "Panel \<Rightarrow> PanelKind" where
  "panelKind (PSingle i t s l v) = PKSingle"
| "panelKind (PTable i t s c r) = PKTable"
| "panelKind (PBar i t s x y d dd) = PKBar"
| "panelKind (PPie i t s x y d dd) = PKPie"
| "panelKind (PLine i t s x k d) = PKLine"
| "panelKind (PNetwork i t r) = PKNetwork"

fun panelTitle :: "Panel \<Rightarrow> jsstring" where
  "panelTitle (PSingle i t s l v) = t"
| "panelTitle (PTable i t s c r) = t"
| "panelTitle (PBar i t s x y d dd) = t"
| "panelTitle (PPie i t s x y d dd) = t"
| "panelTitle (PLine i t s x k d) = t"
| "panelTitle (PNetwork i t r) = t"

fun panelId :: "Panel \<Rightarrow> jsstring" where
  "panelId (PSingle i t s l v) = i"
| "panelId (PTable i t s c r) = i"
| "panelId (PBar i t s x y d dd) = i"
| "panelId (PPie i t s x y d dd) = i"
| "panelId (PLine i t s x k d) = i"
| "panelId (PNetwork i t r) = i"

subsection \<open>Evidence for the narration stage\<close>

record NetworkEvidenceRow =
  ev_source :: jsstring
  ev_nodes :: "(jsstring \<times> NodeStatus) list"
  ev_edges :: "(jsstring \<times> jsstring \<times> jsstring option) list"
  ev_stats :: NetworkStats
  ev_annotations :: "NetworkAnnotation list"

text \<open>
  One evidence object per panel. Fields: \<open>title, value\<close> (single);
  \<open>kind, title, xKey, yKey, top\<close> (bar and pie); \<open>title, xKey, seriesKeys, tail\<close>
  (line); \<open>title, columns, sample, totalRows\<close> (table); \<open>title, rows\<close> (network).
\<close>

datatype Evidence =
    EvSingle jsstring jsnum
  | EvDist PanelKind jsstring jsstring jsstring "ChartDatum list"
  | EvLine jsstring jsstring "jsstring list" "ChartDatum list"
  | EvTable jsstring "jsstring list" "TableRow list" nat
  | EvNetwork jsstring "NetworkEvidenceRow list"

text \<open>\<open>xs.slice(-n)\<close>: the last \<open>n\<close> elements.\<close>

definition sliceLast :: "nat \<Rightarrow> 'a list \<Rightarrow> 'a list" where
  "sliceLast n xs = drop (length xs - n) xs"

definition networkEvidenceRow :: "NetworkRow \<Rightarrow> NetworkEvidenceRow" where
  "networkEvidenceRow row =
     \<lparr>ev_source = row_source row,
      ev_nodes = map (\<lambda>n. (node_label n, node_status n)) (row_nodes row),
      ev_edges = map (\<lambda>e. (edge_from e, edge_to e, edge_label e)) (row_edges row),
      ev_stats = (case row_stats row of Some st \<Rightarrow> st
                  | None \<Rightarrow> \<lparr>policy_drop = None, anomalies = None\<rparr>),
      ev_annotations = (case row_annotations row of Some a \<Rightarrow> a | None \<Rightarrow> [])\<rparr>"

text \<open>
  \<^verbatim>\<open>
  function buildEvidenceFromPanels(panels: Panel[]) {
    const ev = [];
    for (const p of panels) {
      if (p.kind === "single") ev.push({ kind: "single", title: p.title, value: p.value });
      else if (p.kind === "bar" || p.kind === "pie")
        ev.push({ kind: p.kind, title: p.title, xKey: p.xKey, yKey: p.yKey, top: (p.data || []).slice(0, 10) });
      else if (p.kind === "line")
        ev.push({ kind: "line", title: p.title, xKey: p.xKey, seriesKeys: p.seriesKeys, tail: (p.data || []).slice(-12) });
      else if (p.kind === "table")
        ev.push({ kind: "table", title: p.title, columns: p.columns, sample: (p.rows || []).slice(0, 6),
                  totalRows: (p.rows || []).length });
      else if (p.kind === "network") {
        ev.push({ kind: "network", title: p.title,
          rows: (p.rows || []).map((row) => ({
            source: row.source,
            nodes: row.nodes.map((n) => ({ label: n.label, status: n.status })),
            edges: row.edges.map((e) => ({ from: e.from, to: e.to, label: e.label })),
            stats: row.stats || {},
            annotations: row.annotations || [] })) });
      }
    }
    return ev;
  }
  \<close>
\<close>

fun evidenceOf :: "Panel \<Rightarrow> Evidence" where
  "evidenceOf (PSingle i t s l v) = EvSingle t v"
| "evidenceOf (PBar i t s x y d dd) = EvDist PKBar t x y (take 10 d)"
| "evidenceOf (PPie i t s x y d dd) = EvDist PKPie t x y (take 10 d)"
| "evidenceOf (PLine i t s x k d) = EvLine t x k (sliceLast 12 d)"
| "evidenceOf (PTable i t s c r) = EvTable t c (take 6 r) (length r)"
| "evidenceOf (PNetwork i t r) = EvNetwork t (map networkEvidenceRow r)"

definition buildEvidenceFromPanels :: "Panel list \<Rightarrow> Evidence list" where
  "buildEvidenceFromPanels panels = foldl (\<lambda>ev p. ev @ [evidenceOf p]) [] panels"

text \<open>
  The number of data entries an evidence object carries: chart data, sample rows, or
  the rows of a topology.
\<close>

fun evidenceSize :: "Evidence \<Rightarrow> nat" where
  "evidenceSize (EvSingle t v) = 0"
| "evidenceSize (EvDist k t x y d) = length d"
| "evidenceSize (EvLine t x k d) = length d"
| "evidenceSize (EvTable t c r n) = length r"
| "evidenceSize (EvNetwork t r) = length r"

subsection \<open>Materializing the panels of a security plan\<close>

datatype error = TypeError | BackendError jsstring

text \<open>
  \<open>callSplunkMcp(query, earliest_time, latest_time, row_limit)\<close> is a remote call:
  the model takes it as a parameter. Its first argument is the number of calls made
  before it in this run; it returns the rows or the error the call throws.
\<close>

type_synonym backend = "nat \<Rightarrow> jsstring \<Rightarrow> jsstring \<Rightarrow> jsstring \<Rightarrow> int \<Rightarrow> error + McpRow list"

definition newPanelId :: "host \<Rightarrow> string \<Rightarrow> nat \<Rightarrow> jsstring" where
  "newPanelId h prefix seq = lit prefix @ lit ''_'' @ showInt (dateNow h seq) @ lit ''_'' @ showNat seq"

definition orTypeError :: "'a option \<Rightarrow> error + 'a" where
  "orTypeError x = (case x of None \<Rightarrow> Inl TypeError | Some v \<Rightarrow> Inr v)"

text \<open>
  \<^verbatim>\<open>
  function normalizeChartData(rows: McpRow[]): ChartDatum[] {
    return rows.map((row) => {
      const out: ChartDatum = {};
      for (const [key, value] of Object.entries(row)) {
        if (typeof value === "string" || typeof value === "number") {
          out[key] = value;
        } else if (value != null) {
          out[key] = String(value);
        }
      }
      return out;
    });
  }
  \<close>
  Strings and numbers are kept, \<open>null\<close> and \<open>undefined\<close> are left out, anything else
  is converted by \<open>String\<close> (which may throw). \<open>chartPut\<close> is the assignment
  \<open>out[key] = c\<close>: on the key \<open>__proto__\<close> it reaches the setter of the prototype,
  which ignores a string or a number, so the entry is not stored.
\<close>

definition chartPut :: "jsstring \<Rightarrow> ChartValue \<Rightarrow> ChartDatum \<Rightarrow> ChartDatum" where
  "chartPut k c d = (if k = lit ''__proto__'' then d else (k, c) # d)"

fun chartEntries :: "host \<Rightarrow> McpRow \<Rightarrow> ChartDatum option" where
  "chartEntries h [] = Some []"
| "chartEntries h ((k, v) # kvs) =
     (case v of
        JStr s \<Rightarrow> map_option (chartPut k (CStr s)) (chartEntries h kvs)
      | JNum n \<Rightarrow> map_option (chartPut k (CNum n)) (chartEntries h kvs)
      | JUndefined \<Rightarrow> chartEntries h kvs
      | JNull \<Rightarrow> chartEntries h kvs
      | _ \<Rightarrow>
          (case toStringJS (numberToString h) v of
             None \<Rightarrow> None
           | Some s \<Rightarrow> map_option (chartPut k (CStr s)) (chartEntries h kvs)))"

fun normalizeChartData :: "host \<Rightarrow> McpRow list \<Rightarrow> ChartDatum list option" where
  "normalizeChartData h [] = Some []"
| "normalizeChartData h (row # rows) =
     (case chartEntries h row of
        None \<Rightarrow> None
      | Some d \<Rightarrow> map_option ((#) d) (normalizeChartData h rows))"

definition normalizeTableValue :: "host \<Rightarrow> jsval \<Rightarrow> TableValue option" where
  "normalizeTableValue h v =
     (case v of
        JUndefined \<Rightarrow> Some TUndefined
      | JNull \<Rightarrow> Some TNull
      | JStr s \<Rightarrow> Some (TStr s)
      | JNum n \<Rightarrow> Some (TNum n)
      | _ \<Rightarrow> map_option TStr (toStringJS (numberToString h) v))"

fun tableCells :: "host \<Rightarrow> McpRow \<Rightarrow> jsstring list \<Rightarrow> TableRow option" where
  "tableCells h row [] = Some []"
| "tableCells h row (col # cols) =
     (case normalizeTableValue h (lookupOwn row col) of
        None \<Rightarrow> None
      | Some c \<Rightarrow> map_option ((#) (col, c)) (tableCells h row cols))"

fun normalizeTableRows :: "host \<Rightarrow> McpRow list \<Rightarrow> jsstring list \<Rightarrow> TableRow list option" where
  "normalizeTableRows h [] columns = Some []"
| "normalizeTableRows h (row # rows) columns =
     (case tableCells h row columns of
        None \<Rightarrow> None
      | Some r \<Rightarrow> map_option ((#) r) (normalizeTableRows h rows columns))"

definition tableColumns :: "jsstring list" where
  "tableColumns =
     [lit ''Time'', lit ''Severity'', lit ''Description'', lit ''Tags'', lit ''Details'',
      lit ''Recent Network Activity'', lit ''Node: Pod/Container'']"

text \<open>
  The body of the loop of \<open>runPanels\<close> (lines 1158 to 1222) for an output that is not
  suppressed: the query of the template, the call, the panel. \<open>seq\<close> is the sequence
  counter, which is also the number of calls made so far.
\<close>

definition panelFor :: "host \<Rightarrow> backend \<Rightarrow> Plan \<Rightarrow> nat \<Rightarrow> OutputSpec \<Rightarrow> error + Panel" where
  "panelFor h call plan seq out =
     (case template out of
        TCount \<Rightarrow>
          (let spl = splCount (filters plan) in
           case call seq spl (earliest_time plan) (latest_time plan) 5 of
             Inl e \<Rightarrow> Inl e
           | Inr rows \<Rightarrow>
               (case toNumberJS h
                       (nullish (case rows of [] \<Rightarrow> JUndefined | r # rs \<Rightarrow> lookupOwn r (lit ''value''))
                                (JNum (Num 0))) of
                  None \<Rightarrow> Inl TypeError
                | Some v \<Rightarrow>
                    Inr (PSingle (newPanelId h ''p_single'' seq) (title out) spl (lit ''count'') v)))
      | TTable \<Rightarrow>
          (let limit' = clampNum (limitNumber (limit out)) 5 200 50;
               spl = splTable (filters plan) limit' in
           case call seq spl (earliest_time plan) (latest_time plan) limit' of
             Inl e \<Rightarrow> Inl e
           | Inr rows \<Rightarrow>
               (case normalizeTableRows h rows tableColumns of
                  None \<Rightarrow> Inl TypeError
                | Some trs \<Rightarrow>
                    Inr (PTable (newPanelId h ''p_table'' seq) (title out) spl tableColumns trs)))
      | TCountBy \<Rightarrow>
          (let groupBy = (case group_by out of Some g \<Rightarrow> g | None \<Rightarrow> GSeverity);
               limit' = clampNum (limitNumber (limit out)) 3 50 10;
               spl = splCountBy (filters plan) groupBy limit' in
           case call seq spl (earliest_time plan) (latest_time plan) limit' of
             Inl e \<Rightarrow> Inl e
           | Inr rows \<Rightarrow>
               (case normalizeChartData h rows of
                  None \<Rightarrow> Inl TypeError
                | Some d \<Rightarrow>
                    (let xKey = (if groupBy = GNodePodContainer then lit ''node_pod_container''
                                 else if groupBy = GRecentNetworkActivity then lit ''recent_network_activity''
                                 else if groupBy = GTag then lit ''tag''
                                 else lit ''Severity'');
                         drill = (if groupBy = GNodePodContainer then DrillNode
                                  else if groupBy = GRecentNetworkActivity then DrillNet
                                  else if groupBy = GTag then DrillTag
                                  else DrillSeverity)
                     in if kind out = KPie
                        then Inr (PPie (newPanelId h ''p_dist'' seq) (title out) spl xKey (lit ''count'') d drill)
                        else Inr (PBar (newPanelId h ''p_dist'' seq) (title out) spl xKey (lit ''count'') d drill))))
      | TTrend \<Rightarrow>
          (let span' = (case span out of Some s \<Rightarrow> s | None \<Rightarrow> lit ''5m'');
               split' = (if split out = Some SplitSeverity then SplitSeverity else SplitNone);
               spl = splTrend (filters plan) span' split' in
           case call seq spl (earliest_time plan) (latest_time plan) 500 of
             Inl e \<Rightarrow> Inl e
           | Inr rows \<Rightarrow>
               (case normalizeChartData h rows of
                  None \<Rightarrow> Inl TypeError
                | Some d \<Rightarrow>
                    Inr (PLine (newPanelId h ''p_trend'' seq) (title out) spl (lit ''time'')
                           (if split' = SplitSeverity
                            then [lit ''total'', lit ''critical'', lit ''warning'', lit ''info'']
                            else [lit ''total''])
                           d))))"

text \<open>
  \<open>runPanels(plan, pushPanel)\<close>: the outputs one after the other, a suppressed output
  skipped, each panel pushed as soon as it is built. A throw ends the loop. The result
  is the list of the panels pushed, in the order of the calls of \<open>pushPanel\<close>, and the
  error thrown, if any.
\<close>

fun runPanelsLoop ::
  "host \<Rightarrow> backend \<Rightarrow> Plan \<Rightarrow> OutputSpec list \<Rightarrow> nat \<Rightarrow> Panel list \<Rightarrow> Panel list \<times> error option" where
  "runPanelsLoop h call plan [] seq pushed = (pushed, None)"
| "runPanelsLoop h call plan (out # outs) seq pushed =
     (if kind out = KNone then runPanelsLoop h call plan outs seq pushed
      else case panelFor h call plan seq out of
             Inl e \<Rightarrow> (pushed, Some e)
           | Inr p \<Rightarrow> runPanelsLoop h call plan outs (Suc seq) (pushed @ [p]))"

definition runPanels :: "host \<Rightarrow> backend \<Rightarrow> Plan \<Rightarrow> Panel list \<times> error option" where
  "runPanels h call plan = runPanelsLoop h call plan (outputs plan) 0 []"

subsection \<open>Materializing the panels of an observability plan\<close>

definition buildMinuteSeries :: "host \<Rightarrow> nat \<Rightarrow> int list \<Rightarrow> ChartDatum list" where
  "buildMinuteSeries h seq values =
     (let now = dateNow h seq;
          start = now - (int (length values) - 1) * 60 * 1000
      in map (\<lambda>(idx, v). [(lit ''time'', CStr (timeLabel h (start + int idx * 60 * 1000))),
                           (lit ''value'', CNum (Num (of_int v)))])
             (zip [0 ..< length values] values))"

definition mockGrafanaSeries :: "host \<Rightarrow> nat \<Rightarrow> ObservabilityMetric \<Rightarrow> ChartDatum list" where
  "mockGrafanaSeries h seq m =
     (if m = SuccessRate
      then buildMinuteSeries h seq [100, 100, 98, 95, 92, 85, 75, 60, 45, 30, 20, 10, 5, 2, 0]
      else if m = GpuUtilization
      then buildMinuteSeries h seq [42, 45, 48, 50, 55, 58, 60, 62, 64, 66, 68, 70, 72, 74, 76]
      else buildMinuteSeries h seq [5, 5, 5, 4, 4, 3, 3, 2, 2, 1, 1, 1, 0, 0, 0])"

definition mockHubbleRow :: NetworkRow where
  "mockHubbleRow =
     \<lparr>row_source = lit ''Hubble MCP (Overlay)'',
      row_nodes =
        [\<lparr>node_id = lit ''world'', node_label = lit ''World'', node_status = StatusOk\<rparr>,
         \<lparr>node_id = lit ''ai-serving/foundation-instruct-vllm'',
          node_label = lit ''ai-serving/foundation-instruct-vllm'', node_status = StatusAlert\<rparr>],
      row_edges =
        [\<lparr>edge_from = lit ''world'', edge_to = lit ''ai-serving/foundation-instruct-vllm'',
          edge_label = Some (lit ''Policy Drop: 20'')\<rparr>],
      row_annotations = None,
      row_stats = Some \<lparr>policy_drop = Some (Num 20), anomalies = None\<rparr>\<rparr>"

definition okNode :: "string \<Rightarrow> string \<Rightarrow> NetworkNode" where
  "okNode i l = \<lparr>node_id = lit i, node_label = lit l, node_status = StatusOk\<rparr>"

fun chainEdges :: "NetworkNode list \<Rightarrow> NetworkEdge list" where
  "chainEdges (a # b # rest) =
     \<lparr>edge_from = node_id a, edge_to = node_id b, edge_label = None\<rparr> # chainEdges (b # rest)"
| "chainEdges rest = []"

definition mockNdiRow :: NetworkRow where
  "mockNdiRow =
     (let ns = [okNode ''world'' ''World'', okNode ''router-03'' ''Router-03'',
                okNode ''leaf-02'' ''Leaf-02'', okNode ''spine-01'' ''Spine-01'',
                okNode ''leaf-01'' ''Leaf-01'', okNode ''loadbalancer-01'' ''Loadbalancer-01'',
                okNode ''leaf01'' ''Leaf01'', okNode ''spine-02'' ''Spine-02'',
                okNode ''leaf-03'' ''Leaf-03'', okNode ''csco-k8s-03'' ''csco-k8s-03'']
      in \<lparr>row_source = lit ''NDI MCP (Underlay)'', row_nodes = ns, row_edges = chainEdges ns,
          row_annotations = None,
          row_stats = Some \<lparr>policy_drop = None, anomalies = Some (Num 0)\<rparr>\<rparr>)"

text \<open>
  \<^verbatim>\<open>
  async function runObservabilityPanels(plan: ObservabilityPlan, pushPanel: (p: Panel) => void) {
    let seq = 0;
    const networkRows: NetworkRow[] = [];
    for (const req of plan.requests) {
      if (req.viz === "line") {
        const data = mockGrafanaSeries(req.metric);
        const spl = `MCP: Grafana (mock)\nDashboard: ${req.target}\nMetric: ${req.metric}\nRange: ...`;
        pushPanel({ panel_id: newPanelId("p_trend", seq++), title: req.title, kind: "line", spl,
                    xKey: "time", seriesKeys: ["value"], data });
        continue;
      }
      if (req.viz === "network") {
        if (req.mcp === "hubble") networkRows.push(mockHubbleRow());
        if (req.mcp === "ndi") networkRows.push(mockNdiRow());
      }
    }
    if (networkRows.length > 0) {
      const title = plan.language === "zh" ? <Chinese title> : "Communication anomalies (Overlay/Underlay)";
      pushPanel({ panel_id: newPanelId("p_net", seq++), title, kind: "network", rows: networkRows });
    }
  }
  \<close>
\<close>

definition linePanelFor :: "host \<Rightarrow> ObservabilityPlan \<Rightarrow> nat \<Rightarrow> ObservabilityRequest \<Rightarrow> Panel" where
  "linePanelFor h plan seq req =
     PLine (newPanelId h ''p_trend'' seq) (req_title req)
       (lit ''MCP: Grafana (mock)'' @ [newline] @ lit ''Dashboard: '' @ targetName (target req)
        @ [newline] @ lit ''Metric: '' @ metricName (metric req)
        @ [newline] @ lit ''Range: '' @ obs_earliest_time plan @ lit '' -> '' @ obs_latest_time plan)
       (lit ''time'') [lit ''value''] (mockGrafanaSeries h seq (metric req))"

definition networkRowsFor :: "ObservabilityRequest \<Rightarrow> NetworkRow list" where
  "networkRowsFor req =
     (if mcp req = Hubble then [mockHubbleRow] else []) @ (if mcp req = Ndi then [mockNdiRow] else [])"

fun runObservabilityLoop ::
  "host \<Rightarrow> ObservabilityPlan \<Rightarrow> ObservabilityRequest list \<Rightarrow> nat \<Rightarrow> NetworkRow list \<Rightarrow> Panel list
   \<Rightarrow> nat \<times> NetworkRow list \<times> Panel list" where
  "runObservabilityLoop h plan [] seq networkRows pushed = (seq, networkRows, pushed)"
| "runObservabilityLoop h plan (req # reqs) seq networkRows pushed =
     (if viz req = VizLine
      then runObservabilityLoop h plan reqs (Suc seq) networkRows (pushed @ [linePanelFor h plan seq req])
      else runObservabilityLoop h plan reqs seq (networkRows @ networkRowsFor req) pushed)"

definition networkPanelTitle :: "Language \<Rightarrow> jsstring" where
  "networkPanelTitle lang =
     (if lang = Zh then [0x901a, 0x4fe1, 0x5f02, 0x5e38, 0xff08] @ lit ''Overlay/Underlay'' @ [0xff09]
      else lit ''Communication anomalies (Overlay/Underlay)'')"

definition runObservabilityPanels :: "host \<Rightarrow> ObservabilityPlan \<Rightarrow> Panel list" where
  "runObservabilityPanels h plan =
     (case runObservabilityLoop h plan (requests plan) 0 [] [] of
        (seq, networkRows, pushed) \<Rightarrow>
          (if networkRows \<noteq> []
           then pushed @ [PNetwork (newPanelId h ''p_net'' seq) (networkPanelTitle (obs_language plan)) networkRows]
           else pushed))"

section \<open>Notions used in the statements\<close>

text \<open>A host for the examples: every number prints as \<open>0\<close>, no string is a number.\<close>

definition stubHost :: host where
  "stubHost =
     \<lparr>numberToString = (\<lambda>n. lit ''0''), stringToNumber = (\<lambda>s. NaN),
      DEFAULT_EARLIEST_TIME = None, DEFAULT_LATEST_TIME = None,
      dateNow = (\<lambda>n. 0), timeLabel = (\<lambda>t. lit ''00:00'')\<rparr>"

text \<open>
  A value that \<open>String\<close> and \<open>Number\<close> convert without a TypeError (whether they do
  does not depend on how numbers print).
\<close>

definition convertible :: "jsval \<Rightarrow> bool" where
  "convertible v = (toStringJS (\<lambda>n. []) v \<noteq> None)"

definition convertibleOutput :: "jsval \<Rightarrow> bool" where
  "convertibleOutput o' =
     (convertible (getProp o' ''kind'') \<and> convertible (getProp o' ''template'')
      \<and> convertible (getProp o' ''group_by'') \<and> convertible (getProp o' ''split'')
      \<and> convertible (getProp o' ''limit''))"

text \<open>
  The specification's words for a message without an explicit tag-intent signal: none
  of the keywords mitre, att&ck, nist, and no token of the two tag patterns.
\<close>

definition spec_noTagIntentSignal :: "jsstring \<Rightarrow> bool" where
  "spec_noTagIntentSignal userMsg =
     (\<not> includesStr (toLowerCase userMsg) (lit ''mitre'')
      \<and> \<not> includesStr (toLowerCase userMsg) (lit ''att&ck'')
      \<and> \<not> includesStr (toLowerCase userMsg) (lit ''nist'')
      \<and> matchAll matchAttackTag userMsg = []
      \<and> matchAll matchNistTag userMsg = [])"

text \<open>
  The specification's allow-list of observability requests, as a table of the five
  combinations (the planner's prompt lists the same five).
\<close>

definition spec_allowedCombos ::
  "(ObservabilityMcp \<times> ObservabilityTool \<times> ObservabilityTarget \<times> ObservabilityMetric \<times> ObservabilityViz) list" where
  "spec_allowedCombos =
     [(Grafana, QueryDashboardTimeseries, VllmDashboard, SuccessCountPerMinute, VizLine),
      (Grafana, QueryDashboardTimeseries, HubbleL7HttpMetricsByWorkload, SuccessRate, VizLine),
      (Grafana, QueryDashboardTimeseries, NvidiaDcgmExporterDashboard, GpuUtilization, VizLine),
      (Hubble, FetchFlowMetrics, AiServingFoundationInstructVllm, PolicyDropFlows, VizNetwork),
      (Ndi, FetchAnomalies, DefaultCluster, AnomalyEvents, VizNetwork)]"

definition requestCombo ::
  "ObservabilityRequest \<Rightarrow>
   ObservabilityMcp \<times> ObservabilityTool \<times> ObservabilityTarget \<times> ObservabilityMetric \<times> ObservabilityViz" where
  "requestCombo req = (mcp req, tool req, target req, metric req, viz req)"

text \<open>What the normalization makes of one raw output whose fields convert.\<close>

abbreviation outputSpecFor :: "host \<Rightarrow> jsval \<Rightarrow> OutputSpec \<Rightarrow> bool" where
  "outputSpecFor h o' s \<equiv>
     (\<exists>kt tt gt st n.
        toStringJS (numberToString h) (getProp o' ''kind'') = Some kt
        \<and> toStringJS (numberToString h) (getProp o' ''template'') = Some tt
        \<and> toStringJS (numberToString h) (getProp o' ''group_by'') = Some gt
        \<and> toStringJS (numberToString h) (getProp o' ''split'') = Some st
        \<and> toNumberJS h (getProp o' ''limit'') = Some n
        \<and> template s = (case parseTemplate tt of Some x \<Rightarrow> x | None \<Rightarrow> TTable)
        \<and> title s = (case trimmedString (getProp o' ''title'') of Some x \<Rightarrow> x | None \<Rightarrow> lit ''Result'')
        \<and> kind s = (case template s of
                      TCount \<Rightarrow> KSingle | TTable \<Rightarrow> KTable | TTrend \<Rightarrow> KLine
                    | TCountBy \<Rightarrow> (if parseKind kt = Some KPie then KPie else KBar))
        \<and> kind s \<noteq> KNone
        \<and> (template s = TCountBy \<longrightarrow>
              group_by s = Some (case parseGroupBy gt of Some x \<Rightarrow> x | None \<Rightarrow> GSeverity)
              \<and> limit s = Some (clampNum n 3 50 10))
        \<and> (template s = TTable \<longrightarrow> limit s = Some (clampNum n 5 200 50))
        \<and> (template s = TTrend \<longrightarrow>
              split s = Some (case parseSplit st of Some x \<Rightarrow> x | None \<Rightarrow> SplitNone)
              \<and> span s = Some (case trimmedString (getProp o' ''span'') of
                                 Some x \<Rightarrow> x | None \<Rightarrow> lit ''5m'')))"

section \<open>Evaluation of the examples\<close>

text \<open>The definitions unfolded to evaluate the model on a concrete input.\<close>

lemmas tag_eval = extractTagTokens_def matchAttackTag_def matchNistTag_def matchesIgnoreCase_def
  asciiLower_def digitsAt_def isDigit_def isTagUnit_def setAdd_def toLowerCase_def lowerUnit_def
  startsWith_def lit_def

lemmas js_eval = getProp_def lookupOwn_def hasOwn_def trimmedString_def nullish_def envOr_def truthy_def
  stringOrEmpty_def trim_def isWhiteSpace_def toNumberJS_def clampInt_def clampNum_def lit_def

lemmas plan_eval = normalizePlan_def normalizeOutputs_def normalizeOutput_def parseKind_def
  parseTemplate_def parseGroupBy_def parseSplit_def parseSeverity_def isTagToken_def isDigit_def
  toLowerCase_def lowerUnit_def toUpperCase_def upperUnit_def detectLanguage_def stubHost_def Let_def

section \<open>Properties of the escaping\<close>

lemma escapeSplString_Nil: "escapeSplString [] = []"
  by (simp add: escapeSplString_def replaceQuotes_def replaceBackslashes_def)

lemma escapeSplString_Cons: "escapeSplString (c # cs) = escapeUnit c @ escapeSplString cs"
  by (simp add: escapeSplString_def replaceQuotes_def replaceBackslashes_def escapeUnit_def
      backslash_def dquote_def)

lemma escapeSplString_concat: "escapeSplString s = concat (map escapeUnit s)"
  by (induction s) (simp_all add: escapeSplString_Nil escapeSplString_Cons)

lemma unescape_escapeUnit:
  "unescapeSplString (escapeUnit c @ rest) = c # unescapeSplString rest"
proof (cases rest)
  case Nil
  then show ?thesis by (simp add: escapeUnit_def backslash_def dquote_def)
next
  case (Cons d ds)
  then show ?thesis by (simp add: escapeUnit_def backslash_def dquote_def)
qed

lemma unescape_escape: "unescapeSplString (escapeSplString s) = s"
  by (induction s) (simp_all add: escapeSplString_Nil escapeSplString_Cons unescape_escapeUnit)

text \<open>
  Claim C6. The escaping doubles every backslash and then escapes every double quote
  (so each code unit of the input appears once, a backslash or a double quote behind
  exactly one added backslash), and it can be undone: reading the escaped string gives
  the original back, so no two strings share an escaped form. A substring filter
  enters its \<open>like\<close> clause of the compiled query in this escaped form.
\<close>

theorem escapeSplString_roundtrip:
  "escapeSplString s = replaceQuotes (replaceBackslashes s)
   \<and> escapeSplString s = concat (map escapeUnit s)
   \<and> unescapeSplString (escapeSplString s) = s
   \<and> (\<exists>u. \<forall>t. u (escapeSplString t) = t)
   \<and> inj escapeSplString
   \<and> likeClause field (Some s) =
       (if s = [] then []
        else [lit ''like('' @ lit field @ lit '', '' @ quoted (lit ''%'' @ escapeSplString s @ lit ''%'')
              @ lit '')''])"
proof -
  have inv: "\<And>t. unescapeSplString (escapeSplString t) = t"
    by (rule unescape_escape)
  have "inj escapeSplString"
    by (rule inj_on_inverseI [where g = unescapeSplString]) (rule inv)
  moreover have "\<exists>u. \<forall>t. u (escapeSplString t) = t"
    using inv by blast
  ultimately show ?thesis
    using inv escapeSplString_concat by (simp add: escapeSplString_def likeClause_def)
qed

theorem escapeSplString_roundtrip_witness:
  "escapeSplString [97, 34, 92] = [97, 92, 34, 92, 92]
   \<and> unescapeSplString [97, 92, 34, 92, 92] = [97, 34, 92]"
proof -
  have e: "escapeSplString [97, 34, 92] = [97, 92, 34, 92, 92]"
    by (simp add: escapeSplString_def replaceQuotes_def replaceBackslashes_def backslash_def dquote_def)
  from escapeSplString_roundtrip [of "[97, 34, 92]"]
  have "unescapeSplString (escapeSplString [97, 34, 92]) = [97, 34, 92]" by blast
  with e show ?thesis by simp
qed

section \<open>Properties of the guardrails\<close>

lemma setAdd_fold_set: "set (foldl setAdd acc xs) = set acc \<union> set xs"
  by (induction xs arbitrary: acc) (auto simp: setAdd_def)

lemma setAdd_fold_distinct: "distinct acc \<Longrightarrow> distinct (foldl setAdd acc xs)"
  by (induction xs arbitrary: acc) (auto simp: setAdd_def)

lemma extractTagTokens_distinct: "distinct (extractTagTokens m)"
  by (simp add: extractTagTokens_def setAdd_fold_distinct)

lemma extractTagTokens_set:
  "set (extractTagTokens m) = toLowerCase ` (set (matchAll matchAttackTag m) \<union> set (matchAll matchNistTag m))"
  by (simp add: extractTagTokens_def setAdd_fold_set image_Un)

lemma tokens_imply_intent: "extractTagTokens m \<noteq> [] \<Longrightarrow> userExplicitTagIntent m"
  by (simp add: userExplicitTagIntent_def Let_def)

lemma ensureGuardrails_tags:
  "tags_exact (filters (ensureGuardrails p m)) =
     (if extractTagTokens m = [] then None else Some (extractTagTokens m))"
  using tokens_imply_intent [of m]
  by (simp add: ensureGuardrails_def Let_def)

lemma securityPlanStage_guarded:
  "\<exists>p. securityPlanStage h planObj m = ensureGuardrails p m"
  by (auto simp: securityPlanStage_def Let_def split: option.splits)

lemma securityPlanStage_tags:
  "tags_exact (filters (securityPlanStage h planObj m)) =
     (if extractTagTokens m = [] then None else Some (extractTagTokens m))"
proof -
  obtain p where "securityPlanStage h planObj m = ensureGuardrails p m"
    using securityPlanStage_guarded by blast
  then show ?thesis by (simp add: ensureGuardrails_tags)
qed

lemma no_signal_no_tokens: "spec_noTagIntentSignal m \<Longrightarrow> extractTagTokens m = []"
  by (simp add: spec_noTagIntentSignal_def extractTagTokens_def)

text \<open>
  Claim C2. When the user message has no explicit tag-intent signal (none of the
  keywords mitre, att&ck, nist, and no token of the attack or NIST tag patterns), the
  plan after the guardrails has no \<open>tags_exact\<close> filter, whatever the plan was before
  and whatever the planner answered.
\<close>

theorem no_tag_signal_strips_tags:
  assumes "spec_noTagIntentSignal userMsg"
  shows "tags_exact (filters (ensureGuardrails plan userMsg)) = None
         \<and> tags_exact (filters (securityPlanStage h planObj userMsg)) = None"
  using no_signal_no_tokens [OF assms]
  by (simp add: ensureGuardrails_tags securityPlanStage_tags)

text \<open>
  The witness: the planner proposes the valid token \<open>attack.t1611\<close>, normalization
  keeps it, and the guardrails strip it, since the message asks for no tag.
\<close>

theorem no_tag_signal_strips_tags_witness:
  "spec_noTagIntentSignal (lit ''show critical alerts'')
   \<and> map_option (\<lambda>p. tags_exact (filters p))
        (normalizePlan stubHost
           (JObj [(lit ''filters'', JObj [(lit ''tags_exact'', JArr [JStr (lit ''attack.t1611'')])])])
           (lit ''show critical alerts''))
       = Some (Some [lit ''attack.t1611''])
   \<and> tags_exact (filters (securityPlanStage stubHost
        (Some (JObj [(lit ''filters'', JObj [(lit ''tags_exact'', JArr [JStr (lit ''attack.t1611'')])])]))
        (lit ''show critical alerts''))) = None"
proof -
  have sig: "spec_noTagIntentSignal (lit ''show critical alerts'')"
    by (simp add: spec_noTagIntentSignal_def tag_eval)
  have kept: "map_option (\<lambda>p. tags_exact (filters p))
        (normalizePlan stubHost
           (JObj [(lit ''filters'', JObj [(lit ''tags_exact'', JArr [JStr (lit ''attack.t1611'')])])])
           (lit ''show critical alerts''))
       = Some (Some [lit ''attack.t1611''])"
    by (simp add: js_eval plan_eval)
  from no_tag_signal_strips_tags [OF sig] sig kept show ?thesis by blast
qed

text \<open>
  Claim C10. The \<open>tags_exact\<close> filter after the guardrails depends on the user message
  alone: two runs on the same message agree on it, whatever the two candidate plans
  were. When present it is the list of the tokens found in the message by the two
  patterns, in lower case and without repetition; a message with a keyword and no
  token (\<open>mitre\<close>) gets no tag filter.
\<close>

theorem guardrail_tags_from_message_only:
  "tags_exact (filters (ensureGuardrails p userMsg)) = tags_exact (filters (ensureGuardrails p' userMsg))
   \<and> tags_exact (filters (securityPlanStage h planObj userMsg))
       = tags_exact (filters (securityPlanStage h' planObj' userMsg))
   \<and> tags_exact (filters (securityPlanStage h planObj userMsg))
       = (if extractTagTokens userMsg = [] then None else Some (extractTagTokens userMsg))
   \<and> distinct (extractTagTokens userMsg)
   \<and> set (extractTagTokens userMsg)
       = toLowerCase ` (set (matchAll matchAttackTag userMsg) \<union> set (matchAll matchNistTag userMsg))
   \<and> userExplicitTagIntent (lit ''mitre'')
   \<and> tags_exact (filters (securityPlanStage h planObj (lit ''mitre''))) = None"
proof -
  have none: "extractTagTokens (lit ''mitre'') = []"
    by (simp add: tag_eval)
  have intent: "userExplicitTagIntent (lit ''mitre'')"
    by (simp add: userExplicitTagIntent_def tag_eval)
  show ?thesis
    using none intent extractTagTokens_set [of userMsg]
    by (simp add: ensureGuardrails_tags securityPlanStage_tags extractTagTokens_distinct)
qed

theorem guardrail_tags_from_message_only_witness:
  "extractTagTokens (lit ''MITRE Attack.T1611 and attack.t1611 with NIST.AC-3'')
     = [lit ''attack.t1611'', lit ''nist.ac-3'']
   \<and> tags_exact (filters (securityPlanStage stubHost
        (Some (JObj [(lit ''filters'', JObj [(lit ''tags_exact'', JArr [JStr (lit ''attack.t9999'')])])]))
        (lit ''MITRE Attack.T1611 and attack.t1611 with NIST.AC-3'')))
     = Some [lit ''attack.t1611'', lit ''nist.ac-3'']
   \<and> tags_exact (filters (securityPlanStage stubHost None
        (lit ''MITRE Attack.T1611 and attack.t1611 with NIST.AC-3'')))
     = Some [lit ''attack.t1611'', lit ''nist.ac-3'']"
proof -
  let ?m = "lit ''MITRE Attack.T1611 and attack.t1611 with NIST.AC-3''"
  let ?raw = "Some (JObj [(lit ''filters'', JObj [(lit ''tags_exact'', JArr [JStr (lit ''attack.t9999'')])])])"
  have toks: "extractTagTokens ?m = [lit ''attack.t1611'', lit ''nist.ac-3'']"
    by (simp add: tag_eval)
  have same: "tags_exact (filters (securityPlanStage stubHost ?raw ?m))
                = tags_exact (filters (securityPlanStage stubHost None ?m))"
    using guardrail_tags_from_message_only [of undefined ?m undefined stubHost ?raw stubHost None]
    by (elim conjE)
  have val: "tags_exact (filters (securityPlanStage stubHost ?raw ?m))
                = (if extractTagTokens ?m = [] then None else Some (extractTagTokens ?m))"
    using guardrail_tags_from_message_only [of undefined ?m undefined stubHost ?raw stubHost None]
    by (elim conjE)
  have val': "tags_exact (filters (securityPlanStage stubHost ?raw ?m))
                = Some [lit ''attack.t1611'', lit ''nist.ac-3'']"
    unfolding val toks by simp
  show ?thesis
    using toks same val' by (intro conjI) simp_all
qed

section \<open>Properties of the output normalization\<close>

lemma toStringJS_throws_same:
  "(toStringJS ns v = None) = (toStringJS ns' v = None)"
  "(elementStrings ns xs = None) = (elementStrings ns' xs = None)"
proof (induction ns v and ns xs rule: toStringJS_elementStrings.induct)
  case (9 ns x xs)
  then show ?case by (auto split: option.splits)
qed simp_all

lemma convertible_toStringJS: "convertible v \<Longrightarrow> \<exists>t. toStringJS ns v = Some t"
  using toStringJS_throws_same(1) [of ns v "\<lambda>n. []"] by (auto simp: convertible_def)

lemma convertible_toNumberJS: "convertible v \<Longrightarrow> \<exists>n. toNumberJS h v = Some n"
  using convertible_toStringJS [of v "numberToString h"]
  by (auto simp: toNumberJS_def split: jsval.splits)

lemma clampNum_range:
  "lo \<le> hi \<Longrightarrow> lo \<le> dflt \<Longrightarrow> dflt \<le> hi
   \<Longrightarrow> lo \<le> clampNum x lo hi dflt \<and> clampNum x lo hi dflt \<le> hi"
  by (cases x) (simp_all add: clampNum_def)

lemma clampNum_default: "\<forall>q. x \<noteq> Num q \<Longrightarrow> clampNum x lo hi dflt = dflt"
  by (cases x) (simp_all add: clampNum_def)

lemma normalizeOutput_Some:
  assumes "normalizeOutput h o' = Some s"
  obtains kt tt where
    "toStringJS (numberToString h) (getProp o' ''kind'') = Some kt"
    "toStringJS (numberToString h) (getProp o' ''template'') = Some tt"
    "template s = (case parseTemplate tt of Some x \<Rightarrow> x | None \<Rightarrow> TTable)"
    "title s = (case trimmedString (getProp o' ''title'') of Some t \<Rightarrow> t | None \<Rightarrow> lit ''Result'')"
    "kind s = (case template s of
                 TCount \<Rightarrow> KSingle | TTable \<Rightarrow> KTable | TTrend \<Rightarrow> KLine
               | TCountBy \<Rightarrow> (if parseKind kt = Some KPie then KPie else KBar))"
proof -
  from assms obtain kt tt where
    k: "toStringJS (numberToString h) (getProp o' ''kind'') = Some kt" and
    t: "toStringJS (numberToString h) (getProp o' ''template'') = Some tt"
    by (auto simp: normalizeOutput_def split: Option.bind_splits)
  show thesis
  proof (rule that [OF k t])
    show "template s = (case parseTemplate tt of Some x \<Rightarrow> x | None \<Rightarrow> TTable)"
      using assms k t
      by (cases "case parseTemplate tt of Some x \<Rightarrow> x | None \<Rightarrow> TTable")
         (auto simp: normalizeOutput_def Let_def split: Option.bind_splits)
    show "title s = (case trimmedString (getProp o' ''title'') of Some t \<Rightarrow> t | None \<Rightarrow> lit ''Result'')"
      using assms k t
      by (cases "case parseTemplate tt of Some x \<Rightarrow> x | None \<Rightarrow> TTable")
         (auto simp: normalizeOutput_def Let_def split: Option.bind_splits)
    show "kind s = (case template s of
                 TCount \<Rightarrow> KSingle | TTable \<Rightarrow> KTable | TTrend \<Rightarrow> KLine
               | TCountBy \<Rightarrow> (if parseKind kt = Some KPie then KPie else KBar))"
      using assms k t
      by (cases "case parseTemplate tt of Some x \<Rightarrow> x | None \<Rightarrow> TTable")
         (auto simp: normalizeOutput_def Let_def split: Option.bind_splits option.splits VizKind.splits)
  qed
qed

lemma normalizeOutput_kind: "normalizeOutput h o' = Some s \<Longrightarrow> kind s \<noteq> KNone"
  by (erule normalizeOutput_Some) (simp split: Template.splits)

lemma normalizeOutput_countBy:
  assumes "normalizeOutput h o' = Some s" and "template s = TCountBy"
  shows "\<exists>gt n. toStringJS (numberToString h) (getProp o' ''group_by'') = Some gt
           \<and> toNumberJS h (getProp o' ''limit'') = Some n
           \<and> group_by s = Some (case parseGroupBy gt of Some g \<Rightarrow> g | None \<Rightarrow> GSeverity)
           \<and> limit s = Some (clampNum n 3 50 10)"
proof -
  from assms(1) obtain tt where
    t: "toStringJS (numberToString h) (getProp o' ''template'') = Some tt" and
    ts: "template s = (case parseTemplate tt of Some x \<Rightarrow> x | None \<Rightarrow> TTable)"
    by (rule normalizeOutput_Some)
  from ts assms(2) have tc: "(case parseTemplate tt of Some x \<Rightarrow> x | None \<Rightarrow> TTable) = TCountBy"
    by simp
  show ?thesis
    using assms(1) t tc
    by (auto simp: normalizeOutput_def clampInt_def Let_def split: Option.bind_splits)
qed

lemma normalizeOutput_table:
  assumes "normalizeOutput h o' = Some s" and "template s = TTable"
  shows "\<exists>n. toNumberJS h (getProp o' ''limit'') = Some n \<and> limit s = Some (clampNum n 5 200 50)"
proof -
  from assms(1) obtain tt where
    t: "toStringJS (numberToString h) (getProp o' ''template'') = Some tt" and
    ts: "template s = (case parseTemplate tt of Some x \<Rightarrow> x | None \<Rightarrow> TTable)"
    by (rule normalizeOutput_Some)
  from ts assms(2) have tc: "(case parseTemplate tt of Some x \<Rightarrow> x | None \<Rightarrow> TTable) = TTable"
    by simp
  show ?thesis
    using assms(1) t tc
    by (auto simp: normalizeOutput_def clampInt_def Let_def split: Option.bind_splits)
qed

lemma normalizeOutput_trend:
  assumes "normalizeOutput h o' = Some s" and "template s = TTrend"
  shows "\<exists>st. toStringJS (numberToString h) (getProp o' ''split'') = Some st
           \<and> split s = Some (case parseSplit st of Some x \<Rightarrow> x | None \<Rightarrow> SplitNone)
           \<and> span s = Some (case trimmedString (getProp o' ''span'') of Some x \<Rightarrow> x | None \<Rightarrow> lit ''5m'')"
proof -
  from assms(1) obtain tt where
    t: "toStringJS (numberToString h) (getProp o' ''template'') = Some tt" and
    ts: "template s = (case parseTemplate tt of Some x \<Rightarrow> x | None \<Rightarrow> TTable)"
    by (rule normalizeOutput_Some)
  from ts assms(2) have tc: "(case parseTemplate tt of Some x \<Rightarrow> x | None \<Rightarrow> TTable) = TTrend"
    by simp
  show ?thesis
    using assms(1) t tc
    by (auto simp: normalizeOutput_def Let_def split: Option.bind_splits)
qed

lemma normalizeOutput_total:
  assumes "convertibleOutput o'"
  shows "\<exists>s. normalizeOutput h o' = Some s"
proof -
  from assms obtain kt tt gt st n where
    "toStringJS (numberToString h) (getProp o' ''kind'') = Some kt"
    "toStringJS (numberToString h) (getProp o' ''template'') = Some tt"
    "toStringJS (numberToString h) (getProp o' ''group_by'') = Some gt"
    "toStringJS (numberToString h) (getProp o' ''split'') = Some st"
    "toNumberJS h (getProp o' ''limit'') = Some n"
    unfolding convertibleOutput_def
    using convertible_toStringJS convertible_toNumberJS by metis
  then show ?thesis
    by (simp add: normalizeOutput_def clampInt_def Let_def)
qed

lemma normalizeOutputsLoop_kinds:
  "normalizeOutputsLoop h os = Some specs \<Longrightarrow> list_all (\<lambda>s. kind s \<noteq> KNone) specs"
proof (induction os arbitrary: specs)
  case Nil
  then show ?case by simp
next
  case (Cons o' os)
  then show ?case
    by (auto split: Option.bind_splits dest: normalizeOutput_kind)
qed

lemma normalizeOutputs_kinds:
  "normalizeOutputs h v = Some specs \<Longrightarrow> list_all (\<lambda>s. kind s \<noteq> KNone) specs"
  by (cases v) (auto simp: normalizeOutputs_def dest: normalizeOutputsLoop_kinds)

lemma normalizePlan_kinds:
  "normalizePlan h raw m = Some p \<Longrightarrow> list_all (\<lambda>s. kind s \<noteq> KNone) (outputs p)"
  by (auto simp: normalizePlan_def Let_def split: Option.bind_splits dest: normalizeOutputs_kinds)

lemma defaultPlan_kinds: "list_all (\<lambda>s. kind s \<noteq> KNone) (outputs (defaultPlan h m))"
  by (simp add: defaultPlan_def eventsTable_def Let_def)

lemma ensureGuardrails_outputs_length:
  "1 \<le> length (outputs (ensureGuardrails p m)) \<and> length (outputs (ensureGuardrails p m)) \<le> 4"
  by (cases "outputs p") (auto simp add: ensureGuardrails_def Let_def)

lemma take_keeps_some:
  "xs \<noteq> [] \<Longrightarrow> list_all P xs \<Longrightarrow> 0 < n \<Longrightarrow> list_ex P (take n xs)"
  by (cases xs; cases n) simp_all

lemma ensureGuardrails_meaningful:
  assumes "list_all (\<lambda>s. kind s \<noteq> KNone) (outputs p)"
  shows "list_ex (\<lambda>s. kind s \<noteq> KNone) (outputs (ensureGuardrails p m))"
proof (cases "outputs p")
  case Nil
  then show ?thesis by (simp add: ensureGuardrails_def Let_def eventsTable_def)
next
  case (Cons a as)
  with assms have "kind a \<noteq> KNone" by simp
  with Cons show ?thesis by (simp add: ensureGuardrails_def Let_def)
qed

lemma ensureGuardrails_synthesizes:
  assumes "outputs p = [] \<or> \<not> list_ex (\<lambda>s. kind s \<noteq> KNone) (outputs p)"
  shows "outputs (ensureGuardrails p m) = [eventsTable]"
  using assms by (auto simp: ensureGuardrails_def Let_def)

lemma securityPlanStage_cases:
  "(\<exists>raw p. normalizePlan h raw m = Some p \<and> securityPlanStage h planObj m = ensureGuardrails p m)
   \<or> securityPlanStage h planObj m = ensureGuardrails (defaultPlan h m) m"
  by (auto simp: securityPlanStage_def Let_def split: option.splits)

lemma securityPlanStage_meaningful:
  "list_ex (\<lambda>s. kind s \<noteq> KNone) (outputs (securityPlanStage h planObj m))"
proof -
  from securityPlanStage_cases [of h m planObj] show ?thesis
  proof
    assume "\<exists>raw p. normalizePlan h raw m = Some p
              \<and> securityPlanStage h planObj m = ensureGuardrails p m"
    then obtain raw p where np: "normalizePlan h raw m = Some p"
      and eq: "securityPlanStage h planObj m = ensureGuardrails p m"
      by blast
    show ?thesis
      unfolding eq by (rule ensureGuardrails_meaningful [OF normalizePlan_kinds [OF np]])
  next
    assume eq: "securityPlanStage h planObj m = ensureGuardrails (defaultPlan h m) m"
    show ?thesis
      unfolding eq by (rule ensureGuardrails_meaningful [OF defaultPlan_kinds])
  qed
qed

lemma securityPlanStage_length:
  "1 \<le> length (outputs (securityPlanStage h planObj m))
   \<and> length (outputs (securityPlanStage h planObj m)) \<le> 4"
proof -
  obtain p where "securityPlanStage h planObj m = ensureGuardrails p m"
    using securityPlanStage_guarded by blast
  then show ?thesis using ensureGuardrails_outputs_length [of p m] by simp
qed

text \<open>
  Claim C5. For every answer of the planner and every user message, the plan after the
  guardrails has between one and four outputs, one of them at least of a kind other
  than \<open>none\<close>; and the guardrails turn a plan whose outputs are empty or all of kind
  \<open>none\<close> into the plan with the one default table of events.
\<close>

theorem guardrail_outputs_bounds:
  "1 \<le> length (outputs (securityPlanStage h planObj userMsg))
   \<and> length (outputs (securityPlanStage h planObj userMsg)) \<le> 4
   \<and> list_ex (\<lambda>s. kind s \<noteq> KNone) (outputs (securityPlanStage h planObj userMsg))
   \<and> (normalizePlan h raw userMsg = Some p \<longrightarrow>
         1 \<le> length (outputs (ensureGuardrails p userMsg))
         \<and> length (outputs (ensureGuardrails p userMsg)) \<le> 4
         \<and> list_ex (\<lambda>s. kind s \<noteq> KNone) (outputs (ensureGuardrails p userMsg)))
   \<and> (outputs q = [] \<or> \<not> list_ex (\<lambda>s. kind s \<noteq> KNone) (outputs q) \<longrightarrow>
         outputs (ensureGuardrails q userMsg) = [eventsTable])
   \<and> kind eventsTable = KTable \<and> template eventsTable = TTable"
proof -
  have "normalizePlan h raw userMsg = Some p \<longrightarrow>
          list_ex (\<lambda>s. kind s \<noteq> KNone) (outputs (ensureGuardrails p userMsg))"
    by (auto intro: ensureGuardrails_meaningful normalizePlan_kinds)
  moreover have "outputs q = [] \<or> \<not> list_ex (\<lambda>s. kind s \<noteq> KNone) (outputs q) \<longrightarrow>
         outputs (ensureGuardrails q userMsg) = [eventsTable]"
    using ensureGuardrails_synthesizes [of q userMsg] by blast
  ultimately show ?thesis
    using securityPlanStage_length [of h planObj userMsg]
      securityPlanStage_meaningful [of h planObj userMsg]
      ensureGuardrails_outputs_length [of p userMsg]
    by (simp add: eventsTable_def)
qed

theorem guardrail_outputs_bounds_witness:
  "normalizePlan stubHost (JObj []) (lit ''hi'')
     = Some \<lparr>language = En, earliest_time = lit ''-15m'', latest_time = lit ''now'',
             filters = \<lparr>severity_exact = None, description_like = None, details_like = None,
                        node_like = None, has_network_activity = None, tags_exact = None\<rparr>,
             outputs = []\<rparr>
   \<and> outputs (ensureGuardrails
        \<lparr>language = En, earliest_time = lit ''-15m'', latest_time = lit ''now'',
         filters = \<lparr>severity_exact = None, description_like = None, details_like = None,
                    node_like = None, has_network_activity = None, tags_exact = None\<rparr>,
         outputs = []\<rparr> (lit ''hi'')) = [eventsTable]
   \<and> length (outputs (securityPlanStage stubHost (Some (JObj [])) (lit ''hi''))) \<le> 4"
proof -
  let ?p = "\<lparr>language = En, earliest_time = lit ''-15m'', latest_time = lit ''now'',
             filters = \<lparr>severity_exact = None, description_like = None, details_like = None,
                        node_like = None, has_network_activity = None, tags_exact = None\<rparr>,
             outputs = []\<rparr>"
  have np: "normalizePlan stubHost (JObj []) (lit ''hi'') = Some ?p"
    by (simp add: js_eval plan_eval)
  have e: "outputs ?p = []"
    by simp
  note th = guardrail_outputs_bounds [of stubHost "Some (JObj [])" "lit ''hi''" "JObj []" ?p ?p]
  from th e have syn: "outputs (ensureGuardrails ?p (lit ''hi'')) = [eventsTable]"
    by blast
  from th have len: "length (outputs (securityPlanStage stubHost (Some (JObj [])) (lit ''hi''))) \<le> 4"
    by blast
  from np syn len show ?thesis
    by (intro conjI)
qed

lemma normalizeOutput_spec:
  assumes "convertibleOutput o'"
  shows "\<exists>s. normalizeOutput h o' = Some s \<and> outputSpecFor h o' s"
proof -
  from assms obtain gt st n where
    g: "toStringJS (numberToString h) (getProp o' ''group_by'') = Some gt" and
    sp: "toStringJS (numberToString h) (getProp o' ''split'') = Some st" and
    n: "toNumberJS h (getProp o' ''limit'') = Some n"
    unfolding convertibleOutput_def
    using convertible_toStringJS convertible_toNumberJS by metis
  from normalizeOutput_total [OF assms] obtain s where s: "normalizeOutput h o' = Some s"
    by blast
  from s obtain kt tt where
    k: "toStringJS (numberToString h) (getProp o' ''kind'') = Some kt" and
    t: "toStringJS (numberToString h) (getProp o' ''template'') = Some tt" and
    ts: "template s = (case parseTemplate tt of Some x \<Rightarrow> x | None \<Rightarrow> TTable)" and
    ti: "title s = (case trimmedString (getProp o' ''title'') of Some t \<Rightarrow> t | None \<Rightarrow> lit ''Result'')" and
    ks: "kind s = (case template s of
                 TCount \<Rightarrow> KSingle | TTable \<Rightarrow> KTable | TTrend \<Rightarrow> KLine
               | TCountBy \<Rightarrow> (if parseKind kt = Some KPie then KPie else KBar))"
    by (rule normalizeOutput_Some)
  have cb: "template s = TCountBy \<longrightarrow>
              group_by s = Some (case parseGroupBy gt of Some x \<Rightarrow> x | None \<Rightarrow> GSeverity)
              \<and> limit s = Some (clampNum n 3 50 10)"
    using normalizeOutput_countBy [OF s] g n by auto
  have tb: "template s = TTable \<longrightarrow> limit s = Some (clampNum n 5 200 50)"
    using normalizeOutput_table [OF s] n by auto
  have tr: "template s = TTrend \<longrightarrow>
              split s = Some (case parseSplit st of Some x \<Rightarrow> x | None \<Rightarrow> SplitNone)
              \<and> span s = Some (case trimmedString (getProp o' ''span'') of
                                 Some x \<Rightarrow> x | None \<Rightarrow> lit ''5m'')"
    using normalizeOutput_trend [OF s] sp by auto
  have kn: "kind s \<noteq> KNone"
    by (rule normalizeOutput_kind [OF s])
  from s k t g sp n ts ti ks kn cb tb tr show ?thesis
    by blast
qed

lemma normalizeOutputsLoop_spec:
  "list_all convertibleOutput os
   \<Longrightarrow> \<exists>specs. normalizeOutputsLoop h os = Some specs \<and> list_all2 (outputSpecFor h) os specs"
proof (induction os)
  case Nil
  then show ?case by simp
next
  case (Cons o' os)
  then obtain specs where
    r: "normalizeOutputsLoop h os = Some specs" "list_all2 (outputSpecFor h) os specs"
    by auto
  from Cons.prems have "convertibleOutput o'" by simp
  from normalizeOutput_spec [OF this] obtain s where
    s: "normalizeOutput h o' = Some s" "outputSpecFor h o' s"
    by blast
  have "normalizeOutputsLoop h (o' # os) = Some (s # specs)"
    using r(1) s(1) by simp
  moreover have "list_all2 (outputSpecFor h) (o' # os) (s # specs)"
    using r(2) s(2) by simp
  ultimately show ?case by blast
qed

text \<open>
  Claim C4, as the code has it. For a raw list of outputs whose \<open>kind\<close>, \<open>template\<close>,
  \<open>group_by\<close>, \<open>split\<close> and \<open>limit\<close> values convert to strings and numbers,
  normalization returns one spec for each element: an unknown template becomes
  \<open>table\<close>; the kind is the one the template forces (single for count, table for table,
  line for trend, for count_by pie when the raw kind is pie and bar otherwise), so no
  normalized output has kind \<open>none\<close>; an unknown \<open>group_by\<close> becomes \<open>Severity\<close> and an
  unknown \<open>split\<close> becomes \<open>none\<close>; the limit of a count_by is in 3..50 and is 10 when
  the raw limit is not a finite number, the limit of a table is in 5..200 and is 50
  then; 0 gives 3 and 9999 gives 50 for a count_by. A raw value that is not an array
  gives the empty list.
\<close>

theorem normalizeOutputs_defaults:
  assumes "list_all convertibleOutput os"
  shows "(\<exists>specs. normalizeOutputs h (JArr os) = Some specs \<and> list_all2 (outputSpecFor h) os specs)
         \<and> 3 \<le> clampNum x 3 50 10 \<and> clampNum x 3 50 10 \<le> 50
         \<and> 5 \<le> clampNum x 5 200 50 \<and> clampNum x 5 200 50 \<le> 200
         \<and> ((\<forall>q. x \<noteq> Num q) \<longrightarrow> clampNum x 3 50 10 = 10 \<and> clampNum x 5 200 50 = 50)
         \<and> clampNum (Num 0) 3 50 10 = 3 \<and> clampNum (Num 9999) 3 50 10 = 50
         \<and> ((\<forall>xs. v \<noteq> JArr xs) \<longrightarrow> normalizeOutputs h v = Some [])"
proof -
  have a: "\<exists>specs. normalizeOutputs h (JArr os) = Some specs \<and> list_all2 (outputSpecFor h) os specs"
    using normalizeOutputsLoop_spec [OF assms] by (simp add: normalizeOutputs_def)
  have b: "3 \<le> clampNum x 3 50 10 \<and> clampNum x 3 50 10 \<le> 50"
    by (rule clampNum_range) simp_all
  have c: "5 \<le> clampNum x 5 200 50 \<and> clampNum x 5 200 50 \<le> 200"
    by (rule clampNum_range) simp_all
  have d: "(\<forall>q. x \<noteq> Num q) \<longrightarrow> clampNum x 3 50 10 = 10 \<and> clampNum x 5 200 50 = 50"
    by (simp add: clampNum_default)
  have e: "clampNum (Num 0) 3 50 10 = 3 \<and> clampNum (Num 9999) 3 50 10 = 50"
    by (simp add: clampNum_def)
  have f: "(\<forall>xs. v \<noteq> JArr xs) \<longrightarrow> normalizeOutputs h v = Some []"
    by (cases v) (simp_all add: normalizeOutputs_def)
  from a b c d e f show ?thesis by blast
qed

text \<open>
  The witness: four raw outputs (an unknown kind; a count_by with limit 0; a pie with
  limit 9999 and an unknown group; a trend with an unknown split) and their specs.
\<close>

theorem normalizeOutputs_defaults_witness:
  "list_all convertibleOutput
     [JObj [(lit ''kind'', JStr (lit ''bogus''))],
      JObj [(lit ''template'', JStr (lit ''count_by'')), (lit ''limit'', JNum (Num 0))],
      JObj [(lit ''template'', JStr (lit ''count_by'')), (lit ''limit'', JNum (Num 9999)),
            (lit ''kind'', JStr (lit ''pie'')), (lit ''group_by'', JStr (lit ''host''))],
      JObj [(lit ''template'', JStr (lit ''trend'')), (lit ''split'', JStr (lit ''node''))]]
   \<and> normalizeOutputs stubHost
       (JArr [JObj [(lit ''kind'', JStr (lit ''bogus''))],
              JObj [(lit ''template'', JStr (lit ''count_by'')), (lit ''limit'', JNum (Num 0))],
              JObj [(lit ''template'', JStr (lit ''count_by'')), (lit ''limit'', JNum (Num 9999)),
                    (lit ''kind'', JStr (lit ''pie'')), (lit ''group_by'', JStr (lit ''host''))],
              JObj [(lit ''template'', JStr (lit ''trend'')), (lit ''split'', JStr (lit ''node''))]])
     = Some [\<lparr>kind = KTable, title = lit ''Result'', template = TTable, group_by = None,
               limit = Some 50, span = None, split = None\<rparr>,
             \<lparr>kind = KBar, title = lit ''Result'', template = TCountBy, group_by = Some GSeverity,
               limit = Some 3, span = None, split = None\<rparr>,
             \<lparr>kind = KPie, title = lit ''Result'', template = TCountBy, group_by = Some GSeverity,
               limit = Some 50, span = None, split = None\<rparr>,
             \<lparr>kind = KLine, title = lit ''Result'', template = TTrend, group_by = None,
               limit = None, span = Some (lit ''5m''), split = Some SplitNone\<rparr>]
   \<and> clampNum NaN 3 50 10 = 10"
proof -
  let ?os = "[JObj [(lit ''kind'', JStr (lit ''bogus''))],
      JObj [(lit ''template'', JStr (lit ''count_by'')), (lit ''limit'', JNum (Num 0))],
      JObj [(lit ''template'', JStr (lit ''count_by'')), (lit ''limit'', JNum (Num 9999)),
            (lit ''kind'', JStr (lit ''pie'')), (lit ''group_by'', JStr (lit ''host''))],
      JObj [(lit ''template'', JStr (lit ''trend'')), (lit ''split'', JStr (lit ''node''))]]"
  have conv: "list_all convertibleOutput ?os"
    by (simp add: convertibleOutput_def convertible_def js_eval)
  have val: "normalizeOutputs stubHost (JArr ?os)
     = Some [\<lparr>kind = KTable, title = lit ''Result'', template = TTable, group_by = None,
               limit = Some 50, span = None, split = None\<rparr>,
             \<lparr>kind = KBar, title = lit ''Result'', template = TCountBy, group_by = Some GSeverity,
               limit = Some 3, span = None, split = None\<rparr>,
             \<lparr>kind = KPie, title = lit ''Result'', template = TCountBy, group_by = Some GSeverity,
               limit = Some 50, span = None, split = None\<rparr>,
             \<lparr>kind = KLine, title = lit ''Result'', template = TTrend, group_by = None,
               limit = None, span = Some (lit ''5m''), split = Some SplitNone\<rparr>]"
    by (simp add: js_eval plan_eval)
  note th = normalizeOutputs_defaults [OF conv, of stubHost NaN JNull]
  from th have dflt: "clampNum NaN 3 50 10 = 10"
    by blast
  from conv val dflt show ?thesis
    by (intro conjI)
qed

text \<open>
  The claim as it was stated fails. An unknown kind does not stay \<open>none\<close>: the
  template (here the default \<open>table\<close>) forces the kind. A limit that is not a number
  does not always give the default: \<open>Number(null)\<close> is 0, which is clamped to 3. And
  normalization can throw: \<open>String\<close> of an object with an own \<open>toString\<close> property is
  a TypeError.
\<close>

theorem normalizeOutputs_unknown_kind_counterexample:
  "parseKind (lit ''bogus'') = None
   \<and> map_option (map kind) (normalizeOutputs stubHost (JArr [JObj [(lit ''kind'', JStr (lit ''bogus''))]]))
       = Some [KTable]
   \<and> KTable \<noteq> KNone
   \<and> map_option (map limit)
        (normalizeOutputs stubHost
           (JArr [JObj [(lit ''template'', JStr (lit ''count_by'')), (lit ''limit'', JNull)]]))
       = Some [Some 3]
   \<and> normalizeOutputs stubHost (JArr [JObj [(lit ''kind'', JObj [(lit ''toString'', JNull)])]]) = None"
  by (simp add: js_eval plan_eval)

section \<open>Properties of the observability plan\<close>

lemma isAllowed_iff_table:
  "isAllowedObservabilityCombo req = (requestCombo req \<in> set spec_allowedCombos)"
  by (auto simp: isAllowedObservabilityCombo_def requestCombo_def spec_allowedCombos_def)

lemma normalizeRequestsLoop_eq:
  "normalizeRequestsLoop rs acc = acc @ List.map_filter checkedRequest rs"
  by (induction rs arbitrary: acc) (simp_all add: List.map_filter_simps split: option.splits)

lemma checkedRequest_Some_iff:
  "(checkedRequest r = Some req) =
     (allowedMcp (getProp (nullish r (JObj [])) ''mcp'') = Some (mcp req)
      \<and> allowedTool (getProp (nullish r (JObj [])) ''tool'') = Some (tool req)
      \<and> allowedTarget (getProp (nullish r (JObj [])) ''target'') = Some (target req)
      \<and> allowedMetric (getProp (nullish r (JObj [])) ''metric'') = Some (metric req)
      \<and> allowedViz (getProp (nullish r (JObj [])) ''viz'') = Some (viz req)
      \<and> req_title req = (case trimmedString (getProp (nullish r (JObj [])) ''title'') of
                            Some t \<Rightarrow> t | None \<Rightarrow> lit ''Observability'')
      \<and> requestCombo req \<in> set spec_allowedCombos)"
  unfolding isAllowed_iff_table [symmetric]
  by (cases req) (auto simp: checkedRequest_def Let_def split: option.splits)

lemma map_filter_set:
  "x \<in> set (List.map_filter f xs) \<Longrightarrow> \<exists>y. f y = Some x"
  by (auto simp: List.map_filter_def)

lemma normalizeObservabilityPlan_requests:
  "requests (normalizeObservabilityPlan raw m) =
     take 3 (List.map_filter checkedRequest (case getProp raw ''requests'' of JArr rs \<Rightarrow> rs | _ \<Rightarrow> []))"
  by (simp add: normalizeObservabilityPlan_def Let_def normalizeRequestsLoop_eq)

lemma normalizeObservabilityPlan_allowed:
  assumes "req \<in> set (requests (normalizeObservabilityPlan raw m))"
  shows "requestCombo req \<in> set spec_allowedCombos"
proof -
  from assms have "req \<in> set (List.map_filter checkedRequest
                      (case getProp raw ''requests'' of JArr rs \<Rightarrow> rs | _ \<Rightarrow> []))"
    unfolding normalizeObservabilityPlan_requests by (rule in_set_takeD)
  then obtain r where "checkedRequest r = Some req"
    using map_filter_set by fastforce
  then show ?thesis by (simp add: checkedRequest_Some_iff)
qed

lemmas obs_eval = normalizeObservabilityPlan_def checkedRequest_def allowedMcp_def allowedTool_def
  allowedTarget_def allowedMetric_def allowedViz_def targetName_def metricName_def
  isAllowedObservabilityCombo_def

text \<open>
  Claim C3. Normalization of an observability plan keeps, in their order, the raw
  requests whose five fields are in the vocabulary and whose combination is one of the
  five of the allow-list, with the fields as they were given, drops every other
  request, and cuts the result to three requests. A list of one valid and one invalid
  request gives the valid one alone.
\<close>

theorem observability_allow_list:
  "requests (normalizeObservabilityPlan raw userMsg) =
     take 3 (List.map_filter checkedRequest (case getProp raw ''requests'' of JArr rs \<Rightarrow> rs | _ \<Rightarrow> []))
   \<and> length (requests (normalizeObservabilityPlan raw userMsg)) \<le> 3
   \<and> (\<forall>req \<in> set (requests (normalizeObservabilityPlan raw userMsg)).
         requestCombo req \<in> set spec_allowedCombos)
   \<and> ((checkedRequest r = Some req) =
        (allowedMcp (getProp (nullish r (JObj [])) ''mcp'') = Some (mcp req)
         \<and> allowedTool (getProp (nullish r (JObj [])) ''tool'') = Some (tool req)
         \<and> allowedTarget (getProp (nullish r (JObj [])) ''target'') = Some (target req)
         \<and> allowedMetric (getProp (nullish r (JObj [])) ''metric'') = Some (metric req)
         \<and> allowedViz (getProp (nullish r (JObj [])) ''viz'') = Some (viz req)
         \<and> req_title req = (case trimmedString (getProp (nullish r (JObj [])) ''title'') of
                               Some t \<Rightarrow> t | None \<Rightarrow> lit ''Observability'')
         \<and> requestCombo req \<in> set spec_allowedCombos))
   \<and> isAllowedObservabilityCombo req = (requestCombo req \<in> set spec_allowedCombos)
   \<and> requests (normalizeObservabilityPlan
        (JObj [(lit ''requests'',
           JArr [JObj [(lit ''mcp'', JStr (lit ''grafana'')),
                       (lit ''tool'', JStr (lit ''query_dashboard_timeseries'')),
                       (lit ''target'', JStr (lit ''nvidia-dcgm-exporter-dashboard'')),
                       (lit ''metric'', JStr (lit ''gpu_utilization'')),
                       (lit ''viz'', JStr (lit ''line''))],
                 JObj [(lit ''mcp'', JStr (lit ''grafana'')),
                       (lit ''tool'', JStr (lit ''query_dashboard_timeseries'')),
                       (lit ''target'', JStr (lit ''default-cluster'')),
                       (lit ''metric'', JStr (lit ''gpu_utilization'')),
                       (lit ''viz'', JStr (lit ''line''))]])]) userMsg)
       = [\<lparr>mcp = Grafana, tool = QueryDashboardTimeseries, target = NvidiaDcgmExporterDashboard,
           metric = GpuUtilization, viz = VizLine, req_title = lit ''Observability''\<rparr>]"
proof -
  have ex: "requests (normalizeObservabilityPlan
        (JObj [(lit ''requests'',
           JArr [JObj [(lit ''mcp'', JStr (lit ''grafana'')),
                       (lit ''tool'', JStr (lit ''query_dashboard_timeseries'')),
                       (lit ''target'', JStr (lit ''nvidia-dcgm-exporter-dashboard'')),
                       (lit ''metric'', JStr (lit ''gpu_utilization'')),
                       (lit ''viz'', JStr (lit ''line''))],
                 JObj [(lit ''mcp'', JStr (lit ''grafana'')),
                       (lit ''tool'', JStr (lit ''query_dashboard_timeseries'')),
                       (lit ''target'', JStr (lit ''default-cluster'')),
                       (lit ''metric'', JStr (lit ''gpu_utilization'')),
                       (lit ''viz'', JStr (lit ''line''))]])]) userMsg)
       = [\<lparr>mcp = Grafana, tool = QueryDashboardTimeseries, target = NvidiaDcgmExporterDashboard,
           metric = GpuUtilization, viz = VizLine, req_title = lit ''Observability''\<rparr>]"
    by (simp add: obs_eval js_eval Let_def)
  have len: "length (requests (normalizeObservabilityPlan raw userMsg)) \<le> 3"
    by (simp add: normalizeObservabilityPlan_requests)
  have al: "\<forall>req \<in> set (requests (normalizeObservabilityPlan raw userMsg)).
              requestCombo req \<in> set spec_allowedCombos"
    using normalizeObservabilityPlan_allowed by blast
  from ex len al normalizeObservabilityPlan_requests [of raw userMsg]
    checkedRequest_Some_iff [of r req] isAllowed_iff_table [of req]
  show ?thesis by (intro conjI)
qed

text \<open>
  The witness: five raw requests, the second with a combination outside the
  allow-list, the others valid; the first three valid ones are kept.
\<close>

theorem observability_allow_list_witness:
  "requests (normalizeObservabilityPlan
        (JObj [(lit ''requests'',
           JArr [JObj [(lit ''mcp'', JStr (lit ''hubble'')),
                       (lit ''tool'', JStr (lit ''fetch_flow_metrics'')),
                       (lit ''target'', JStr (lit ''ai-serving/foundation-instruct-vllm'')),
                       (lit ''metric'', JStr (lit ''policy_drop_flows'')),
                       (lit ''viz'', JStr (lit ''network'')),
                       (lit ''title'', JStr (lit ''Drops''))],
                 JObj [(lit ''mcp'', JStr (lit ''hubble'')),
                       (lit ''tool'', JStr (lit ''fetch_flow_metrics'')),
                       (lit ''target'', JStr (lit ''default-cluster'')),
                       (lit ''metric'', JStr (lit ''policy_drop_flows'')),
                       (lit ''viz'', JStr (lit ''network''))],
                 JObj [(lit ''mcp'', JStr (lit ''ndi'')),
                       (lit ''tool'', JStr (lit ''fetch_anomalies'')),
                       (lit ''target'', JStr (lit ''default-cluster'')),
                       (lit ''metric'', JStr (lit ''anomaly_events'')),
                       (lit ''viz'', JStr (lit ''network''))],
                 JNull,
                 JObj [(lit ''mcp'', JStr (lit ''grafana'')),
                       (lit ''tool'', JStr (lit ''query_dashboard_timeseries'')),
                       (lit ''target'', JStr (lit ''vllm-dashboard'')),
                       (lit ''metric'', JStr (lit ''success_count_per_minute'')),
                       (lit ''viz'', JStr (lit ''line''))],
                 JObj [(lit ''mcp'', JStr (lit ''grafana'')),
                       (lit ''tool'', JStr (lit ''query_dashboard_timeseries'')),
                       (lit ''target'', JStr (lit ''nvidia-dcgm-exporter-dashboard'')),
                       (lit ''metric'', JStr (lit ''gpu_utilization'')),
                       (lit ''viz'', JStr (lit ''line''))]])]) (lit ''status''))
     = [\<lparr>mcp = Hubble, tool = FetchFlowMetrics, target = AiServingFoundationInstructVllm,
         metric = PolicyDropFlows, viz = VizNetwork, req_title = lit ''Drops''\<rparr>,
        \<lparr>mcp = Ndi, tool = FetchAnomalies, target = DefaultCluster,
         metric = AnomalyEvents, viz = VizNetwork, req_title = lit ''Observability''\<rparr>,
        \<lparr>mcp = Grafana, tool = QueryDashboardTimeseries, target = VllmDashboard,
         metric = SuccessCountPerMinute, viz = VizLine, req_title = lit ''Observability''\<rparr>]"
proof -
  let ?raw = "JObj [(lit ''requests'',
           JArr [JObj [(lit ''mcp'', JStr (lit ''hubble'')),
                       (lit ''tool'', JStr (lit ''fetch_flow_metrics'')),
                       (lit ''target'', JStr (lit ''ai-serving/foundation-instruct-vllm'')),
                       (lit ''metric'', JStr (lit ''policy_drop_flows'')),
                       (lit ''viz'', JStr (lit ''network'')),
                       (lit ''title'', JStr (lit ''Drops''))],
                 JObj [(lit ''mcp'', JStr (lit ''hubble'')),
                       (lit ''tool'', JStr (lit ''fetch_flow_metrics'')),
                       (lit ''target'', JStr (lit ''default-cluster'')),
                       (lit ''metric'', JStr (lit ''policy_drop_flows'')),
                       (lit ''viz'', JStr (lit ''network''))],
                 JObj [(lit ''mcp'', JStr (lit ''ndi'')),
                       (lit ''tool'', JStr (lit ''fetch_anomalies'')),
                       (lit ''target'', JStr (lit ''default-cluster'')),
                       (lit ''metric'', JStr (lit ''anomaly_events'')),
                       (lit ''viz'', JStr (lit ''network''))],
                 JNull,
                 JObj [(lit ''mcp'', JStr (lit ''grafana'')),
                       (lit ''tool'', JStr (lit ''query_dashboard_timeseries'')),
                       (lit ''target'', JStr (lit ''vllm-dashboard'')),
                       (lit ''metric'', JStr (lit ''success_count_per_minute'')),
                       (lit ''viz'', JStr (lit ''line''))],
                 JObj [(lit ''mcp'', JStr (lit ''grafana'')),
                       (lit ''tool'', JStr (lit ''query_dashboard_timeseries'')),
                       (lit ''target'', JStr (lit ''nvidia-dcgm-exporter-dashboard'')),
                       (lit ''metric'', JStr (lit ''gpu_utilization'')),
                       (lit ''viz'', JStr (lit ''line''))]])]"
  note th = observability_allow_list [of ?raw "lit ''status''" JNull undefined]
  from th have eq: "requests (normalizeObservabilityPlan ?raw (lit ''status'')) =
     take 3 (List.map_filter checkedRequest (case getProp ?raw ''requests'' of JArr rs \<Rightarrow> rs | _ \<Rightarrow> []))"
    by (elim conjE)
  show ?thesis
    unfolding eq
    by (simp add: obs_eval js_eval Let_def List.map_filter_simps)
qed

text \<open>
  The claim about the GPU intent fails as it was stated: the intents are tested in the
  order anomaly, success rate, GPU, success count, so a message with \<open>gpu\<close> and \<open>drop\<close>
  gets the two requests of the anomaly intent.
\<close>

theorem gpu_intent_counterexample:
  "includesStr (toLowerCase (lit ''gpu drop'')) (lit ''gpu'')
   \<and> map requestCombo
        (requests (enforceObservabilityIntent
           \<lparr>obs_language = En, obs_earliest_time = lit ''-15m'', obs_latest_time = lit ''now'',
            requests = [gpuRequest En]\<rparr> (lit ''gpu drop'')))
       = [(Hubble, FetchFlowMetrics, AiServingFoundationInstructVllm, PolicyDropFlows, VizNetwork),
          (Ndi, FetchAnomalies, DefaultCluster, AnomalyEvents, VizNetwork)]"
  by (simp add: enforceObservabilityIntent_def detectObservabilityIntent_def
      buildObservabilityRequest_def hubbleRequest_def ndiRequest_def requestCombo_def
      anomalyKeyword_def toLowerCase_def lowerUnit_def startsWith_def lit_def Let_def)

lemma normalizeObservabilityPlan_language:
  "obs_language (normalizeObservabilityPlan raw m) = detectLanguage m"
  by (simp add: normalizeObservabilityPlan_def Let_def)

lemma fallbackObservabilityPlan_language:
  "obs_language (fallbackObservabilityPlan m) = detectLanguage m"
  by (simp add: fallbackObservabilityPlan_def Let_def)

lemma enforce_gpu:
  "detectObservabilityIntent m = IntentGpu
   \<Longrightarrow> requests (enforceObservabilityIntent plan m) = [gpuRequest (obs_language plan)]"
  by (simp add: enforceObservabilityIntent_def buildObservabilityRequest_def Let_def)

lemma stage_gpu:
  assumes "detectObservabilityIntent m = IntentGpu"
  shows "requests (observabilityPlanStage planObj m) = [gpuRequest (detectLanguage m)]"
proof -
  obtain p where p: "observabilityPlanStage planObj m = enforceObservabilityIntent p m"
    and l: "obs_language p = detectLanguage m"
    by (auto simp: observabilityPlanStage_def Let_def normalizeObservabilityPlan_language
        fallbackObservabilityPlan_language split: option.splits)
  show ?thesis
    unfolding p using enforce_gpu [OF assms, of p] l by simp
qed

text \<open>
  Claim C7, as the code has it. When the user message, in lower case, contains \<open>gpu\<close>
  and none of the keywords of the anomaly and success-rate intents, the plan after
  the intent enforcement has exactly the one canonical GPU request (its title in the
  language of the plan), whatever requests the plan had before.
\<close>

theorem gpu_intent_overrides_requests:
  assumes "includesStr (toLowerCase userMsg) (lit ''gpu'')"
    and "\<not> includesStr (toLowerCase userMsg) anomalyKeyword"
    and "\<not> includesStr (toLowerCase userMsg) (lit ''anomaly'')"
    and "\<not> includesStr (toLowerCase userMsg) (lit ''abnormal'')"
    and "\<not> includesStr (toLowerCase userMsg) (lit ''drop'')"
    and "\<not> includesStr (toLowerCase userMsg) successRateKeyword"
    and "\<not> includesStr (toLowerCase userMsg) (lit ''success rate'')"
  shows "detectObservabilityIntent userMsg = IntentGpu
         \<and> requests (enforceObservabilityIntent plan userMsg) = [gpuRequest (obs_language plan)]
         \<and> map requestCombo (requests (enforceObservabilityIntent plan userMsg))
             = [(Grafana, QueryDashboardTimeseries, NvidiaDcgmExporterDashboard, GpuUtilization, VizLine)]
         \<and> requests (observabilityPlanStage planObj userMsg) = [gpuRequest (detectLanguage userMsg)]"
proof -
  have i: "detectObservabilityIntent userMsg = IntentGpu"
    using assms by (simp add: detectObservabilityIntent_def Let_def)
  have c: "requestCombo (gpuRequest l)
             = (Grafana, QueryDashboardTimeseries, NvidiaDcgmExporterDashboard, GpuUtilization, VizLine)" for l
    by (simp add: requestCombo_def gpuRequest_def)
  show ?thesis
    using i c by (simp add: enforce_gpu stage_gpu)
qed

theorem gpu_intent_overrides_requests_witness:
  "includesStr (toLowerCase (lit ''GPU status'')) (lit ''gpu'')
   \<and> requests (enforceObservabilityIntent
        \<lparr>obs_language = En, obs_earliest_time = lit ''-15m'', obs_latest_time = lit ''now'',
         requests = [ndiRequest En, successCountRequest En]\<rparr> (lit ''GPU status''))
       = [\<lparr>mcp = Grafana, tool = QueryDashboardTimeseries, target = NvidiaDcgmExporterDashboard,
           metric = GpuUtilization, viz = VizLine, req_title = lit ''GPU utilization trend''\<rparr>]"
proof -
  let ?m = "lit ''GPU status''"
  let ?s = "toLowerCase ?m"
  have s: "?s = lit ''gpu status''"
    by (simp add: toLowerCase_def lowerUnit_def lit_def)
  have a: "includesStr ?s (lit ''gpu'')"
    unfolding s by (simp add: startsWith_def lit_def)
  have b: "\<not> includesStr ?s anomalyKeyword" "\<not> includesStr ?s (lit ''anomaly'')"
    "\<not> includesStr ?s (lit ''abnormal'')" "\<not> includesStr ?s (lit ''drop'')"
    "\<not> includesStr ?s successRateKeyword" "\<not> includesStr ?s (lit ''success rate'')"
    unfolding s by (simp_all add: startsWith_def lit_def anomalyKeyword_def successRateKeyword_def)
  note th = gpu_intent_overrides_requests [OF a b,
      of "\<lparr>obs_language = En, obs_earliest_time = lit ''-15m'', obs_latest_time = lit ''now'',
         requests = [ndiRequest En, successCountRequest En]\<rparr>" None]
  from th have "requests (enforceObservabilityIntent
        \<lparr>obs_language = En, obs_earliest_time = lit ''-15m'', obs_latest_time = lit ''now'',
         requests = [ndiRequest En, successCountRequest En]\<rparr> ?m) = [gpuRequest En]"
    by simp
  with a show ?thesis
    by (simp add: gpuRequest_def)
qed

section \<open>Properties of the compiled queries\<close>

lemmas spl_eval = splTrend_def buildFilterPipeline_def tagLines_def filterClauses_def likeClause_def
  quoted_def trim_def isWhiteSpace_def

text \<open>
  Claim C1 at a failing input. The planner answers with a trend output whose span is
  \<open>1m | eval x="y"\<close>. Normalization keeps the span as it is (it is only trimmed), and
  \<open>splTrend\<close> puts it into the \<open>timechart\<close> line of the query code unit by code unit:
  the double quotes are not escaped (the escaping would change the string), and the
  text after \<open>span=1m\<close> is read by the backend as further query syntax.
\<close>

theorem splTrend_interpolates_span_raw:
  "map_option (map span)
     (normalizeOutputs stubHost
        (JArr [JObj [(lit ''template'', JStr (lit ''trend'')),
                     (lit ''span'', JStr (lit ''1m | eval x='' @ [dquote] @ lit ''y'' @ [dquote]))]]))
     = Some [Some (lit ''1m | eval x='' @ [dquote] @ lit ''y'' @ [dquote])]
   \<and> splTrend \<lparr>severity_exact = None, description_like = None, details_like = None,
                node_like = None, has_network_activity = None, tags_exact = None\<rparr>
        (lit ''1m | eval x='' @ [dquote] @ lit ''y'' @ [dquote]) SplitNone
     = BASE_SEARCH @ [newline]
       @ lit ''| timechart span='' @ (lit ''1m | eval x='' @ [dquote] @ lit ''y'' @ [dquote])
       @ lit '' count as total'' @ [newline]
       @ lit ''| eval time=strftime(_time,'' @ [dquote] @ lit ''%H:%M'' @ [dquote] @ lit '')'' @ [newline]
       @ lit ''| fields time total''
   \<and> escapeSplString (lit ''1m | eval x='' @ [dquote] @ lit ''y'' @ [dquote])
     = lit ''1m | eval x='' @ [backslash, dquote] @ lit ''y'' @ [backslash, dquote]
   \<and> escapeSplString (lit ''1m | eval x='' @ [dquote] @ lit ''y'' @ [dquote])
     \<noteq> lit ''1m | eval x='' @ [dquote] @ lit ''y'' @ [dquote]"
proof -
  have a: "map_option (map span)
     (normalizeOutputs stubHost
        (JArr [JObj [(lit ''template'', JStr (lit ''trend'')),
                     (lit ''span'', JStr (lit ''1m | eval x='' @ [dquote] @ lit ''y'' @ [dquote]))]]))
     = Some [Some (lit ''1m | eval x='' @ [dquote] @ lit ''y'' @ [dquote])]"
    by (simp add: js_eval plan_eval dquote_def)
  have b: "splTrend \<lparr>severity_exact = None, description_like = None, details_like = None,
                node_like = None, has_network_activity = None, tags_exact = None\<rparr>
        (lit ''1m | eval x='' @ [dquote] @ lit ''y'' @ [dquote]) SplitNone
     = BASE_SEARCH @ [newline]
       @ lit ''| timechart span='' @ (lit ''1m | eval x='' @ [dquote] @ lit ''y'' @ [dquote])
       @ lit '' count as total'' @ [newline]
       @ lit ''| eval time=strftime(_time,'' @ [dquote] @ lit ''%H:%M'' @ [dquote] @ lit '')'' @ [newline]
       @ lit ''| fields time total''"
    by (simp add: spl_eval lit_def dquote_def)
  have c: "escapeSplString (lit ''1m | eval x='' @ [dquote] @ lit ''y'' @ [dquote])
     = lit ''1m | eval x='' @ [backslash, dquote] @ lit ''y'' @ [backslash, dquote]"
    by (simp add: escapeSplString_concat escapeUnit_def lit_def dquote_def backslash_def)
  have d: "escapeSplString (lit ''1m | eval x='' @ [dquote] @ lit ''y'' @ [dquote])
     \<noteq> lit ''1m | eval x='' @ [dquote] @ lit ''y'' @ [dquote]"
    unfolding c by (simp add: lit_def dquote_def backslash_def)
  from a b c d show ?thesis by (intro conjI)
qed

section \<open>Properties of the panel execution\<close>

lemma panelFor_panel:
  assumes "panelFor h call plan seq out = Inr p"
  shows "panelTitle p = title out
         \<and> panelKind p = (case template out of
                            TCount \<Rightarrow> PKSingle | TTable \<Rightarrow> PKTable | TTrend \<Rightarrow> PKLine
                          | TCountBy \<Rightarrow> (if kind out = KPie then PKPie else PKBar))
         \<and> (\<exists>prefix. panelId p = newPanelId h prefix seq)"
proof (cases "template out")
  case TCount
  with assms show ?thesis
    by (auto simp: panelFor_def Let_def split: sum.splits option.splits)
next
  case TTable
  with assms show ?thesis
    by (auto simp: panelFor_def Let_def split: sum.splits option.splits)
next
  case TCountBy
  with assms show ?thesis
    by (auto simp: panelFor_def Let_def split: sum.splits option.splits if_splits)
next
  case TTrend
  with assms show ?thesis
    by (auto simp: panelFor_def Let_def split: sum.splits option.splits)
qed

lemma runPanelsLoop_order:
  "runPanelsLoop h call plan outs seq pushed = (ps, err)
   \<Longrightarrow> \<exists>new. ps = pushed @ new
        \<and> length new \<le> length (filter (\<lambda>o'. kind o' \<noteq> KNone) outs)
        \<and> (\<forall>i < length new.
              panelFor h call plan (seq + i) (filter (\<lambda>o'. kind o' \<noteq> KNone) outs ! i) = Inr (new ! i))
        \<and> (err = None \<longrightarrow> length new = length (filter (\<lambda>o'. kind o' \<noteq> KNone) outs))
        \<and> (\<forall>e. err = Some e \<longrightarrow>
              length new < length (filter (\<lambda>o'. kind o' \<noteq> KNone) outs)
              \<and> panelFor h call plan (seq + length new)
                    (filter (\<lambda>o'. kind o' \<noteq> KNone) outs ! length new) = Inl e)"
proof (induction outs arbitrary: seq pushed)
  case Nil
  then show ?case by auto
next
  case (Cons out outs)
  show ?case
  proof (cases "kind out = KNone")
    case True
    with Cons.prems have "runPanelsLoop h call plan outs seq pushed = (ps, err)"
      by simp
    from Cons.IH [OF this] True show ?thesis by simp
  next
    case False
    show ?thesis
    proof (cases "panelFor h call plan seq out")
      case (Inl e)
      with False Cons.prems have "ps = pushed" "err = Some e"
        by simp_all
      with False Inl show ?thesis by simp
    next
      case (Inr p)
      with False Cons.prems
      have "runPanelsLoop h call plan outs (Suc seq) (pushed @ [p]) = (ps, err)"
        by simp
      from Cons.IH [OF this] obtain new where
        n1: "ps = (pushed @ [p]) @ new" and
        n2: "length new \<le> length (filter (\<lambda>o'. kind o' \<noteq> KNone) outs)" and
        n3: "\<forall>i < length new.
               panelFor h call plan (Suc seq + i) (filter (\<lambda>o'. kind o' \<noteq> KNone) outs ! i) = Inr (new ! i)" and
        n4: "err = None \<longrightarrow> length new = length (filter (\<lambda>o'. kind o' \<noteq> KNone) outs)" and
        n5: "\<forall>e. err = Some e \<longrightarrow>
               length new < length (filter (\<lambda>o'. kind o' \<noteq> KNone) outs)
               \<and> panelFor h call plan (Suc seq + length new)
                     (filter (\<lambda>o'. kind o' \<noteq> KNone) outs ! length new) = Inl e"
        by blast
      have f: "filter (\<lambda>o'. kind o' \<noteq> KNone) (out # outs) = out # filter (\<lambda>o'. kind o' \<noteq> KNone) outs"
        using False by simp
      have "\<forall>i < length (p # new).
               panelFor h call plan (seq + i) ((out # filter (\<lambda>o'. kind o' \<noteq> KNone) outs) ! i)
                 = Inr ((p # new) ! i)"
      proof (intro allI impI)
        fix i assume "i < length (p # new)"
        then show "panelFor h call plan (seq + i) ((out # filter (\<lambda>o'. kind o' \<noteq> KNone) outs) ! i)
                     = Inr ((p # new) ! i)"
          using Inr n3 by (cases i) simp_all
      qed
      with n1 n2 n4 n5 show ?thesis
        unfolding f by (intro exI [of _ "p # new"]) simp
    qed
  qed
qed

lemma runObservabilityLoop_eq:
  "runObservabilityLoop h plan reqs seq networkRows pushed =
     (seq + length (filter (\<lambda>r. viz r = VizLine) reqs),
      networkRows @ concat (map networkRowsFor (filter (\<lambda>r. viz r \<noteq> VizLine) reqs)),
      pushed @ map (\<lambda>(i, r). linePanelFor h plan i r)
                 (enumerate seq (filter (\<lambda>r. viz r = VizLine) reqs)))"
  by (induction reqs arbitrary: seq networkRows pushed) simp_all

lemma runObservabilityPanels_eq:
  "runObservabilityPanels h plan =
     map (\<lambda>(i, r). linePanelFor h plan i r) (enumerate 0 (filter (\<lambda>r. viz r = VizLine) (requests plan)))
     @ (if concat (map networkRowsFor (filter (\<lambda>r. viz r \<noteq> VizLine) (requests plan))) = [] then []
        else [PNetwork (newPanelId h ''p_net'' (length (filter (\<lambda>r. viz r = VizLine) (requests plan))))
                (networkPanelTitle (obs_language plan))
                (concat (map networkRowsFor (filter (\<lambda>r. viz r \<noteq> VizLine) (requests plan))))])"
  by (auto simp: runObservabilityPanels_def runObservabilityLoop_eq)

lemma linePanelFor_panel:
  "panelTitle (linePanelFor h plan i r) = req_title r \<and> panelKind (linePanelFor h plan i r) = PKLine"
  by (simp add: linePanelFor_def)

text \<open>
  The claim as it was stated fails for the observability workspace. The planner
  answers with a Hubble request and then a Grafana request, the message has no intent
  keyword, and the plan keeps both in this order. The line panel of the second request
  is pushed first; the network panel, which gathers the rows of the first request under
  a title of its own, is pushed after the loop.
\<close>

theorem observability_panel_order_counterexample:
  "map req_title (requests (observabilityPlanStage
      (Some (JObj [(lit ''requests'',
         JArr [JObj [(lit ''mcp'', JStr (lit ''hubble'')),
                     (lit ''tool'', JStr (lit ''fetch_flow_metrics'')),
                     (lit ''target'', JStr (lit ''ai-serving/foundation-instruct-vllm'')),
                     (lit ''metric'', JStr (lit ''policy_drop_flows'')),
                     (lit ''viz'', JStr (lit ''network'')),
                     (lit ''title'', JStr (lit ''Drops''))],
               JObj [(lit ''mcp'', JStr (lit ''grafana'')),
                     (lit ''tool'', JStr (lit ''query_dashboard_timeseries'')),
                     (lit ''target'', JStr (lit ''vllm-dashboard'')),
                     (lit ''metric'', JStr (lit ''success_count_per_minute'')),
                     (lit ''viz'', JStr (lit ''line'')),
                     (lit ''title'', JStr (lit ''Count''))]])]))
      (lit ''status''))) = [lit ''Drops'', lit ''Count'']
   \<and> map panelTitle (runObservabilityPanels stubHost (observabilityPlanStage
      (Some (JObj [(lit ''requests'',
         JArr [JObj [(lit ''mcp'', JStr (lit ''hubble'')),
                     (lit ''tool'', JStr (lit ''fetch_flow_metrics'')),
                     (lit ''target'', JStr (lit ''ai-serving/foundation-instruct-vllm'')),
                     (lit ''metric'', JStr (lit ''policy_drop_flows'')),
                     (lit ''viz'', JStr (lit ''network'')),
                     (lit ''title'', JStr (lit ''Drops''))],
               JObj [(lit ''mcp'', JStr (lit ''grafana'')),
                     (lit ''tool'', JStr (lit ''query_dashboard_timeseries'')),
                     (lit ''target'', JStr (lit ''vllm-dashboard'')),
                     (lit ''metric'', JStr (lit ''success_count_per_minute'')),
                     (lit ''viz'', JStr (lit ''line'')),
                     (lit ''title'', JStr (lit ''Count''))]])]))
      (lit ''status'')))
     = [lit ''Count'', lit ''Communication anomalies (Overlay/Underlay)'']
   \<and> map panelKind (runObservabilityPanels stubHost (observabilityPlanStage
      (Some (JObj [(lit ''requests'',
         JArr [JObj [(lit ''mcp'', JStr (lit ''hubble'')),
                     (lit ''tool'', JStr (lit ''fetch_flow_metrics'')),
                     (lit ''target'', JStr (lit ''ai-serving/foundation-instruct-vllm'')),
                     (lit ''metric'', JStr (lit ''policy_drop_flows'')),
                     (lit ''viz'', JStr (lit ''network'')),
                     (lit ''title'', JStr (lit ''Drops''))],
               JObj [(lit ''mcp'', JStr (lit ''grafana'')),
                     (lit ''tool'', JStr (lit ''query_dashboard_timeseries'')),
                     (lit ''target'', JStr (lit ''vllm-dashboard'')),
                     (lit ''metric'', JStr (lit ''success_count_per_minute'')),
                     (lit ''viz'', JStr (lit ''line'')),
                     (lit ''title'', JStr (lit ''Count''))]])]))
      (lit ''status'')))
     = [PKLine, PKNetwork]"
proof -
  let ?raw = "JObj [(lit ''requests'',
         JArr [JObj [(lit ''mcp'', JStr (lit ''hubble'')),
                     (lit ''tool'', JStr (lit ''fetch_flow_metrics'')),
                     (lit ''target'', JStr (lit ''ai-serving/foundation-instruct-vllm'')),
                     (lit ''metric'', JStr (lit ''policy_drop_flows'')),
                     (lit ''viz'', JStr (lit ''network'')),
                     (lit ''title'', JStr (lit ''Drops''))],
               JObj [(lit ''mcp'', JStr (lit ''grafana'')),
                     (lit ''tool'', JStr (lit ''query_dashboard_timeseries'')),
                     (lit ''target'', JStr (lit ''vllm-dashboard'')),
                     (lit ''metric'', JStr (lit ''success_count_per_minute'')),
                     (lit ''viz'', JStr (lit ''line'')),
                     (lit ''title'', JStr (lit ''Count''))]])]"
  let ?plan = "\<lparr>obs_language = En, obs_earliest_time = lit ''-15m'', obs_latest_time = lit ''now'',
                requests = [\<lparr>mcp = Hubble, tool = FetchFlowMetrics, target = AiServingFoundationInstructVllm,
                             metric = PolicyDropFlows, viz = VizNetwork, req_title = lit ''Drops''\<rparr>,
                            \<lparr>mcp = Grafana, tool = QueryDashboardTimeseries, target = VllmDashboard,
                             metric = SuccessCountPerMinute, viz = VizLine, req_title = lit ''Count''\<rparr>]\<rparr>"
  have norm: "normalizeObservabilityPlan ?raw (lit ''status'') = ?plan"
    by (simp add: obs_eval js_eval detectLanguage_def Let_def)
  have intent: "detectObservabilityIntent (lit ''status'') = IntentUnknown"
    by (simp add: detectObservabilityIntent_def anomalyKeyword_def successRateKeyword_def
        successCountKeyword_def toLowerCase_def lowerUnit_def startsWith_def lit_def Let_def)
  have stage: "observabilityPlanStage (Some ?raw) (lit ''status'') = ?plan"
    by (simp add: observabilityPlanStage_def enforceObservabilityIntent_def truthy_def norm intent Let_def)
  show ?thesis
    unfolding stage
    by (simp add: runObservabilityPanels_eq linePanelFor_panel networkRowsFor_def networkPanelTitle_def)
qed

text \<open>
  Claim C8, as the code has it. Security workspace: the panels pushed are, in order,
  the panels of the outputs of the plan that are not suppressed; the i-th panel pushed
  is built from the i-th such output with sequence number i and has its title and the
  kind of its template; when nothing throws there is one panel for each such output;
  when the run throws, the error is the one thrown while the panel of the next such
  output was built, and the panels pushed are exactly those of the outputs before
  it. Observability workspace: the line
  panels are pushed in the order of the line requests of the plan, and the rows of all
  network requests are gathered, in the order of the requests, in one network panel
  pushed last.
\<close>

theorem panels_in_plan_order:
  assumes "runPanels h call plan = (ps, err)"
  shows "length ps \<le> length (filter (\<lambda>o'. kind o' \<noteq> KNone) (outputs plan))
         \<and> (\<forall>i < length ps.
               panelFor h call plan i (filter (\<lambda>o'. kind o' \<noteq> KNone) (outputs plan) ! i) = Inr (ps ! i)
               \<and> panelTitle (ps ! i) = title (filter (\<lambda>o'. kind o' \<noteq> KNone) (outputs plan) ! i)
               \<and> panelKind (ps ! i) =
                   (case template (filter (\<lambda>o'. kind o' \<noteq> KNone) (outputs plan) ! i) of
                      TCount \<Rightarrow> PKSingle | TTable \<Rightarrow> PKTable | TTrend \<Rightarrow> PKLine
                    | TCountBy \<Rightarrow>
                        (if kind (filter (\<lambda>o'. kind o' \<noteq> KNone) (outputs plan) ! i) = KPie
                         then PKPie else PKBar)))
         \<and> (err = None \<longrightarrow> length ps = length (filter (\<lambda>o'. kind o' \<noteq> KNone) (outputs plan)))
         \<and> (\<forall>e. err = Some e \<longrightarrow>
               length ps < length (filter (\<lambda>o'. kind o' \<noteq> KNone) (outputs plan))
               \<and> panelFor h call plan (length ps)
                     (filter (\<lambda>o'. kind o' \<noteq> KNone) (outputs plan) ! length ps) = Inl e)
         \<and> runObservabilityPanels h' oplan =
             map (\<lambda>(i, r). linePanelFor h' oplan i r)
               (enumerate 0 (filter (\<lambda>r. viz r = VizLine) (requests oplan)))
             @ (if concat (map networkRowsFor (filter (\<lambda>r. viz r \<noteq> VizLine) (requests oplan))) = [] then []
                else [PNetwork (newPanelId h' ''p_net'' (length (filter (\<lambda>r. viz r = VizLine) (requests oplan))))
                        (networkPanelTitle (obs_language oplan))
                        (concat (map networkRowsFor (filter (\<lambda>r. viz r \<noteq> VizLine) (requests oplan))))])
         \<and> panelTitle (linePanelFor h' oplan j r) = req_title r
         \<and> panelKind (linePanelFor h' oplan j r) = PKLine"
proof -
  from assms have "runPanelsLoop h call plan (outputs plan) 0 [] = (ps, err)"
    by (simp add: runPanels_def)
  from runPanelsLoop_order [OF this] obtain new where
    n1: "ps = new" and
    n2: "length new \<le> length (filter (\<lambda>o'. kind o' \<noteq> KNone) (outputs plan))" and
    n3: "\<forall>i < length new.
           panelFor h call plan i (filter (\<lambda>o'. kind o' \<noteq> KNone) (outputs plan) ! i) = Inr (new ! i)" and
    n4: "err = None \<longrightarrow> length new = length (filter (\<lambda>o'. kind o' \<noteq> KNone) (outputs plan))" and
    n5: "\<forall>e. err = Some e \<longrightarrow>
           length new < length (filter (\<lambda>o'. kind o' \<noteq> KNone) (outputs plan))
           \<and> panelFor h call plan (length new)
                 (filter (\<lambda>o'. kind o' \<noteq> KNone) (outputs plan) ! length new) = Inl e"
    by auto
  have "\<forall>i < length ps.
          panelFor h call plan i (filter (\<lambda>o'. kind o' \<noteq> KNone) (outputs plan) ! i) = Inr (ps ! i)
          \<and> panelTitle (ps ! i) = title (filter (\<lambda>o'. kind o' \<noteq> KNone) (outputs plan) ! i)
          \<and> panelKind (ps ! i) =
              (case template (filter (\<lambda>o'. kind o' \<noteq> KNone) (outputs plan) ! i) of
                 TCount \<Rightarrow> PKSingle | TTable \<Rightarrow> PKTable | TTrend \<Rightarrow> PKLine
               | TCountBy \<Rightarrow>
                   (if kind (filter (\<lambda>o'. kind o' \<noteq> KNone) (outputs plan) ! i) = KPie
                    then PKPie else PKBar))"
  proof (intro allI impI)
    fix i assume "i < length ps"
    with n1 n3 have p: "panelFor h call plan i (filter (\<lambda>o'. kind o' \<noteq> KNone) (outputs plan) ! i) = Inr (ps ! i)"
      by simp
    from panelFor_panel [OF p] p
    show "panelFor h call plan i (filter (\<lambda>o'. kind o' \<noteq> KNone) (outputs plan) ! i) = Inr (ps ! i)
          \<and> panelTitle (ps ! i) = title (filter (\<lambda>o'. kind o' \<noteq> KNone) (outputs plan) ! i)
          \<and> panelKind (ps ! i) =
              (case template (filter (\<lambda>o'. kind o' \<noteq> KNone) (outputs plan) ! i) of
                 TCount \<Rightarrow> PKSingle | TTable \<Rightarrow> PKTable | TTrend \<Rightarrow> PKLine
               | TCountBy \<Rightarrow>
                   (if kind (filter (\<lambda>o'. kind o' \<noteq> KNone) (outputs plan) ! i) = KPie
                    then PKPie else PKBar))"
      by blast
  qed
  with n1 n2 n4 n5 runObservabilityPanels_eq [of h' oplan] linePanelFor_panel [of h' oplan j r]
  show ?thesis by blast
qed

text \<open>
  The witness: a plan with a suppressed output, a count and the table of events, on a
  backend whose first call returns no row and whose second call throws. The panel of
  the count is pushed and stays; the error is the one of the table.
\<close>

theorem panels_in_plan_order_witness:
  "runPanels stubHost (\<lambda>n q e l k. if n = 0 then Inr [] else Inl (BackendError (lit ''HTTP 500'')))
     \<lparr>language = En, earliest_time = lit ''-15m'', latest_time = lit ''now'',
      filters = \<lparr>severity_exact = None, description_like = None, details_like = None,
                 node_like = None, has_network_activity = None, tags_exact = None\<rparr>,
      outputs = [\<lparr>kind = KNone, title = lit ''Hidden'', template = TCount, group_by = None,
                  limit = None, span = None, split = None\<rparr>,
                 \<lparr>kind = KSingle, title = lit ''Total'', template = TCount, group_by = None,
                  limit = None, span = None, split = None\<rparr>,
                 eventsTable]\<rparr>
   = ([PSingle (newPanelId stubHost ''p_single'' 0) (lit ''Total'')
         (splCount \<lparr>severity_exact = None, description_like = None, details_like = None,
                    node_like = None, has_network_activity = None, tags_exact = None\<rparr>)
         (lit ''count'') (Num 0)], Some (BackendError (lit ''HTTP 500'')))
   \<and> Suc 0 < length (filter (\<lambda>o'. kind o' \<noteq> KNone)
        [\<lparr>kind = KNone, title = lit ''Hidden'', template = TCount, group_by = None,
          limit = None, span = None, split = None\<rparr>,
         \<lparr>kind = KSingle, title = lit ''Total'', template = TCount, group_by = None,
          limit = None, span = None, split = None\<rparr>,
         eventsTable])"
proof -
  let ?f = "\<lparr>severity_exact = None, description_like = None, details_like = None,
             node_like = None, has_network_activity = None, tags_exact = None\<rparr>"
  let ?hidden = "\<lparr>kind = KNone, title = lit ''Hidden'', template = TCount, group_by = None,
                  limit = None, span = None, split = None\<rparr>"
  let ?total = "\<lparr>kind = KSingle, title = lit ''Total'', template = TCount, group_by = None,
                  limit = None, span = None, split = None\<rparr>"
  let ?plan = "\<lparr>language = En, earliest_time = lit ''-15m'', latest_time = lit ''now'',
                filters = ?f, outputs = [?hidden, ?total, eventsTable]\<rparr>"
  let ?call = "\<lambda>n q e l k. if n = (0::nat) then Inr [] else Inl (BackendError (lit ''HTTP 500''))"
  let ?p0 = "PSingle (newPanelId stubHost ''p_single'' 0) (lit ''Total'') (splCount ?f) (lit ''count'') (Num 0)"
  have run: "runPanels stubHost ?call ?plan = ([?p0], Some (BackendError (lit ''HTTP 500'')))"
    by (simp add: runPanels_def panelFor_def eventsTable_def toNumberJS_def nullish_def
        limitNumber_def clampNum_def Let_def)
  note th = panels_in_plan_order [OF run, of stubHost undefined 0 undefined]
  from th have "length [?p0] < length (filter (\<lambda>o'. kind o' \<noteq> KNone) (outputs ?plan))"
    by blast
  then have "Suc 0 < length (filter (\<lambda>o'. kind o' \<noteq> KNone) [?hidden, ?total, eventsTable])"
    by simp
  with run show ?thesis by (intro conjI)
qed

section \<open>Properties of the evidence\<close>

lemma foldl_snoc_map: "foldl (\<lambda>acc x. acc @ [f x]) acc xs = acc @ map f xs"
  by (induction xs arbitrary: acc) simp_all

lemma buildEvidence_map: "buildEvidenceFromPanels panels = map evidenceOf panels"
  by (simp add: buildEvidenceFromPanels_def foldl_snoc_map)

lemma sliceLast_length: "length (sliceLast n xs) \<le> n"
  by (simp add: sliceLast_def)

lemma sliceLast_suffix: "\<exists>pre. xs = pre @ sliceLast n xs"
  by (metis append_take_drop_id sliceLast_def)

lemma evidenceSize_by_kind:
  "(panelKind p = PKSingle \<longrightarrow> evidenceSize (evidenceOf p) = 0)
   \<and> (panelKind p = PKBar \<or> panelKind p = PKPie \<longrightarrow> evidenceSize (evidenceOf p) \<le> 10)
   \<and> (panelKind p = PKLine \<longrightarrow> evidenceSize (evidenceOf p) \<le> 12)
   \<and> (panelKind p = PKTable \<longrightarrow> evidenceSize (evidenceOf p) \<le> 6)"
  by (cases p) (simp_all add: sliceLast_def)

lemma evidenceSize_bound: "panelKind p \<noteq> PKNetwork \<Longrightarrow> evidenceSize (evidenceOf p) \<le> 12"
  by (cases p) (simp_all add: sliceLast_def)

lemma runPanels_no_network:
  assumes "runPanels h call plan = (ps, err)" and "p \<in> set ps"
  shows "panelKind p \<noteq> PKNetwork"
proof -
  from assms(1) have "runPanelsLoop h call plan (outputs plan) 0 [] = (ps, err)"
    by (simp add: runPanels_def)
  from runPanelsLoop_order [OF this] have
    n: "\<forall>i < length ps.
          panelFor h call plan i (filter (\<lambda>o'. kind o' \<noteq> KNone) (outputs plan) ! i) = Inr (ps ! i)"
    by auto
  from assms(2) obtain i where i: "i < length ps" "ps ! i = p"
    by (auto simp: in_set_conv_nth)
  with n have "panelFor h call plan i (filter (\<lambda>o'. kind o' \<noteq> KNone) (outputs plan) ! i) = Inr p"
    by auto
  from panelFor_panel [OF this] show ?thesis
    by (auto split: Template.splits if_splits)
qed

lemma networkRowsFor_length: "length (networkRowsFor req) \<le> 1"
  by (simp add: networkRowsFor_def)

lemma networkRows_length: "length (concat (map networkRowsFor reqs)) \<le> length reqs"
proof (induction reqs)
  case Nil
  then show ?case by simp
next
  case (Cons r reqs)
  then show ?case using networkRowsFor_length [of r] by simp
qed

lemma networkRows_filter_length:
  "length (concat (map networkRowsFor (filter P reqs))) \<le> length reqs"
  using networkRows_length [of "filter P reqs"] length_filter_le [of P reqs] by linarith

lemma mockRows_sizes:
  assumes "row \<in> set (networkRowsFor req)"
  shows "length (row_nodes row) \<le> 10 \<and> length (row_edges row) \<le> 9"
  using assms
  by (auto simp: networkRowsFor_def mockHubbleRow_def mockNdiRow_def okNode_def Let_def
      split: if_splits)

lemma observability_panel_cases:
  assumes "p \<in> set (runObservabilityPanels h plan)"
  shows "(\<exists>i r. p = linePanelFor h plan i r)
         \<or> (\<exists>i. p = PNetwork i (networkPanelTitle (obs_language plan))
                     (concat (map networkRowsFor (filter (\<lambda>r. viz r \<noteq> VizLine) (requests plan)))))"
  using assms unfolding runObservabilityPanels_eq
  by (auto split: if_splits)

lemma observability_evidence_size:
  assumes "p \<in> set (runObservabilityPanels h plan)"
  shows "(panelKind p \<noteq> PKNetwork \<longrightarrow> evidenceSize (evidenceOf p) \<le> 12)
         \<and> (panelKind p = PKNetwork \<longrightarrow> evidenceSize (evidenceOf p) \<le> length (requests plan))"
proof -
  from observability_panel_cases [OF assms] show ?thesis
  proof
    assume "\<exists>i r. p = linePanelFor h plan i r"
    then show ?thesis by (auto simp: linePanelFor_def sliceLast_def)
  next
    assume "\<exists>i. p = PNetwork i (networkPanelTitle (obs_language plan))
                     (concat (map networkRowsFor (filter (\<lambda>r. viz r \<noteq> VizLine) (requests plan))))"
    then show ?thesis
      using networkRows_filter_length [of "\<lambda>r. viz r \<noteq> VizLine" "requests plan"] by auto
  qed
qed

lemma observability_network_rows:
  assumes "PNetwork i t rows \<in> set (runObservabilityPanels h plan)" and "row \<in> set rows"
  shows "length (ev_nodes (networkEvidenceRow row)) \<le> 10
         \<and> length (ev_edges (networkEvidenceRow row)) \<le> 9"
proof -
  from observability_panel_cases [OF assms(1)]
  have "rows = concat (map networkRowsFor (filter (\<lambda>r. viz r \<noteq> VizLine) (requests plan)))"
    by (auto simp: linePanelFor_def)
  with assms(2) obtain req where "row \<in> set (networkRowsFor req)"
    by auto
  from mockRows_sizes [OF this] show ?thesis
    by (simp add: networkEvidenceRow_def)
qed

lemma buildObservabilityRequest_length: "length (buildObservabilityRequest intent lang) \<le> 2"
  by (simp add: buildObservabilityRequest_def)

lemma fallback_requests_length: "length (requests (fallbackObservabilityPlan m)) \<le> 2"
  by (simp add: fallbackObservabilityPlan_def Let_def)

lemma enforce_requests_length:
  "length (requests plan) \<le> 3 \<Longrightarrow> length (requests (enforceObservabilityIntent plan m)) \<le> 3"
  using buildObservabilityRequest_length [of "detectObservabilityIntent m" "obs_language plan"]
  by (simp add: enforceObservabilityIntent_def Let_def)

lemma stage_requests_length: "length (requests (observabilityPlanStage planObj m)) \<le> 3"
proof -
  have n: "length (requests (normalizeObservabilityPlan raw m)) \<le> 3" for raw
    by (simp add: normalizeObservabilityPlan_requests)
  have f: "length (requests (fallbackObservabilityPlan m)) \<le> 3"
    using fallback_requests_length [of m] by simp
  show ?thesis
    unfolding observabilityPlanStage_def Let_def
    by (rule enforce_requests_length) (auto split: option.splits intro: n f)
qed

text \<open>
  Claim C9. Every panel gives one evidence object. The evidence of a bar or pie panel
  holds the first ten data rows at most, of a line panel the last twelve points at
  most, of a table six sample rows at most (with the total number of rows); a single
  value has no rows. This holds whatever the size of the panel. A network panel gives
  one evidence row for each of its rows; the panels of a security plan are never
  network panels, and the network panel of the resolved observability plan has one row
  at most for each request, hence three rows at most, each with ten nodes and nine
  edges at most. So every evidence object built from the panels of a run carries
  twelve entries at most.
\<close>

theorem evidence_bounds:
  "buildEvidenceFromPanels panels = map evidenceOf panels
   \<and> length (buildEvidenceFromPanels panels) = length panels
   \<and> evidenceOf (PSingle i t s l v) = EvSingle t v
   \<and> evidenceOf (PBar i t s x y d dd) = EvDist PKBar t x y (take 10 d) \<and> length (take 10 d) \<le> 10
   \<and> evidenceOf (PPie i t s x y d dd) = EvDist PKPie t x y (take 10 d)
   \<and> evidenceOf (PLine i t s x ks d) = EvLine t x ks (sliceLast 12 d)
   \<and> length (sliceLast 12 d) \<le> 12 \<and> (\<exists>pre. d = pre @ sliceLast 12 d)
   \<and> evidenceOf (PTable i t s c r) = EvTable t c (take 6 r) (length r) \<and> length (take 6 r) \<le> 6
   \<and> evidenceOf (PNetwork i t rows) = EvNetwork t (map networkEvidenceRow rows)
   \<and> (\<forall>p \<in> set panels.
         (panelKind p = PKSingle \<longrightarrow> evidenceSize (evidenceOf p) = 0)
         \<and> (panelKind p = PKBar \<or> panelKind p = PKPie \<longrightarrow> evidenceSize (evidenceOf p) \<le> 10)
         \<and> (panelKind p = PKLine \<longrightarrow> evidenceSize (evidenceOf p) \<le> 12)
         \<and> (panelKind p = PKTable \<longrightarrow> evidenceSize (evidenceOf p) \<le> 6))
   \<and> (runPanels h call plan = (ps, err) \<longrightarrow>
         (\<forall>p \<in> set ps. panelKind p \<noteq> PKNetwork)
         \<and> (\<forall>e \<in> set (buildEvidenceFromPanels ps). evidenceSize e \<le> 12))
   \<and> (\<forall>p \<in> set (runObservabilityPanels h' oplan).
         (panelKind p \<noteq> PKNetwork \<longrightarrow> evidenceSize (evidenceOf p) \<le> 12)
         \<and> (panelKind p = PKNetwork \<longrightarrow> evidenceSize (evidenceOf p) \<le> length (requests oplan))
         \<and> (\<forall>j u rs. p = PNetwork j u rs \<longrightarrow>
               (\<forall>row \<in> set rs. length (ev_nodes (networkEvidenceRow row)) \<le> 10
                                \<and> length (ev_edges (networkEvidenceRow row)) \<le> 9)))
   \<and> length (requests (observabilityPlanStage planObj userMsg)) \<le> 3
   \<and> (\<forall>p \<in> set (runObservabilityPanels h' (observabilityPlanStage planObj userMsg)).
         (panelKind p = PKNetwork \<longrightarrow> evidenceSize (evidenceOf p) \<le> 3))
   \<and> (\<forall>e \<in> set (buildEvidenceFromPanels
                     (runObservabilityPanels h' (observabilityPlanStage planObj userMsg))).
         evidenceSize e \<le> 12)"
proof -
  have a: "\<forall>p \<in> set panels.
         (panelKind p = PKSingle \<longrightarrow> evidenceSize (evidenceOf p) = 0)
         \<and> (panelKind p = PKBar \<or> panelKind p = PKPie \<longrightarrow> evidenceSize (evidenceOf p) \<le> 10)
         \<and> (panelKind p = PKLine \<longrightarrow> evidenceSize (evidenceOf p) \<le> 12)
         \<and> (panelKind p = PKTable \<longrightarrow> evidenceSize (evidenceOf p) \<le> 6)"
    using evidenceSize_by_kind by blast
  have b: "runPanels h call plan = (ps, err) \<longrightarrow>
         (\<forall>p \<in> set ps. panelKind p \<noteq> PKNetwork)
         \<and> (\<forall>e \<in> set (buildEvidenceFromPanels ps). evidenceSize e \<le> 12)"
  proof
    assume run: "runPanels h call plan = (ps, err)"
    have nn: "\<forall>p \<in> set ps. panelKind p \<noteq> PKNetwork"
      using runPanels_no_network [OF run] by blast
    then have "\<forall>e \<in> set (buildEvidenceFromPanels ps). evidenceSize e \<le> 12"
      unfolding buildEvidence_map using evidenceSize_bound by auto
    with nn show "(\<forall>p \<in> set ps. panelKind p \<noteq> PKNetwork)
         \<and> (\<forall>e \<in> set (buildEvidenceFromPanels ps). evidenceSize e \<le> 12)"
      by blast
  qed
  have c: "\<forall>p \<in> set (runObservabilityPanels h' oplan).
         (panelKind p \<noteq> PKNetwork \<longrightarrow> evidenceSize (evidenceOf p) \<le> 12)
         \<and> (panelKind p = PKNetwork \<longrightarrow> evidenceSize (evidenceOf p) \<le> length (requests oplan))
         \<and> (\<forall>j u rs. p = PNetwork j u rs \<longrightarrow>
               (\<forall>row \<in> set rs. length (ev_nodes (networkEvidenceRow row)) \<le> 10
                                \<and> length (ev_edges (networkEvidenceRow row)) \<le> 9))"
    using observability_evidence_size [of _ h' oplan] observability_network_rows [of _ _ _ h' oplan]
    by blast
  have len: "length (requests (observabilityPlanStage planObj userMsg)) \<le> 3"
    by (rule stage_requests_length)
  have d: "\<forall>p \<in> set (runObservabilityPanels h' (observabilityPlanStage planObj userMsg)).
         (panelKind p = PKNetwork \<longrightarrow> evidenceSize (evidenceOf p) \<le> 3)"
  proof
    fix p assume "p \<in> set (runObservabilityPanels h' (observabilityPlanStage planObj userMsg))"
    from observability_evidence_size [OF this] len
    show "panelKind p = PKNetwork \<longrightarrow> evidenceSize (evidenceOf p) \<le> 3"
      by auto
  qed
  have e: "\<forall>e \<in> set (buildEvidenceFromPanels
                     (runObservabilityPanels h' (observabilityPlanStage planObj userMsg))).
         evidenceSize e \<le> 12"
  proof
    fix e assume "e \<in> set (buildEvidenceFromPanels
                     (runObservabilityPanels h' (observabilityPlanStage planObj userMsg)))"
    then obtain p where p: "p \<in> set (runObservabilityPanels h' (observabilityPlanStage planObj userMsg))"
      and ep: "e = evidenceOf p"
      unfolding buildEvidence_map by auto
    from observability_evidence_size [OF p] len show "evidenceSize e \<le> 12"
      unfolding ep by (cases "panelKind p = PKNetwork") auto
  qed
  have f: "\<exists>pre. d = pre @ sliceLast 12 d"
    by (rule sliceLast_suffix)
  from a b c len d e f show ?thesis
    by (simp add: buildEvidence_map sliceLast_length)
qed

text \<open>
  The witness: a security run whose table panel has seven rows (six are sampled), and
  the observability run of the message \<open>drop\<close>, whose network panel has the two rows
  of the anomaly intent.
\<close>

theorem evidence_bounds_witness:
  "list_all (\<lambda>e. evidenceSize e \<le> 12) (buildEvidenceFromPanels (fst (runPanels stubHost
      (\<lambda>n q e l k. Inr [[], [], [], [], [], [], []])
      \<lparr>language = En, earliest_time = lit ''-15m'', latest_time = lit ''now'',
       filters = \<lparr>severity_exact = None, description_like = None, details_like = None,
                  node_like = None, has_network_activity = None, tags_exact = None\<rparr>,
       outputs = [eventsTable]\<rparr>)))
   \<and> map evidenceSize (buildEvidenceFromPanels (fst (runPanels stubHost
      (\<lambda>n q e l k. Inr [[], [], [], [], [], [], []])
      \<lparr>language = En, earliest_time = lit ''-15m'', latest_time = lit ''now'',
       filters = \<lparr>severity_exact = None, description_like = None, details_like = None,
                  node_like = None, has_network_activity = None, tags_exact = None\<rparr>,
       outputs = [eventsTable]\<rparr>))) = [6]
   \<and> map evidenceSize (buildEvidenceFromPanels
        (runObservabilityPanels stubHost (observabilityPlanStage None (lit ''drop'')))) = [2]
   \<and> map panelKind (runObservabilityPanels stubHost (observabilityPlanStage None (lit ''drop'')))
       = [PKNetwork]"
proof -
  let ?plan = "\<lparr>language = En, earliest_time = lit ''-15m'', latest_time = lit ''now'',
       filters = \<lparr>severity_exact = None, description_like = None, details_like = None,
                  node_like = None, has_network_activity = None, tags_exact = None\<rparr>,
       outputs = [eventsTable]\<rparr>"
  let ?call = "\<lambda>n q e l k. Inr [[], [], [], [], [], [], []]"
  let ?run = "runPanels stubHost ?call ?plan"
  have run: "?run = (fst ?run, snd ?run)"
    by simp
  note th = evidence_bounds [where h = stubHost and call = ?call and plan = ?plan
      and ps = "fst ?run" and err = "snd ?run" and h' = stubHost and planObj = None
      and userMsg = "lit ''drop''"]
  from th have bound: "\<forall>e \<in> set (buildEvidenceFromPanels (fst ?run)). evidenceSize e \<le> 12"
    by simp
  have sec: "map evidenceSize (buildEvidenceFromPanels (fst ?run)) = [6]"
    by (simp add: runPanels_def panelFor_def eventsTable_def limitNumber_def clampNum_def Let_def
        tableColumns_def lookupOwn_def normalizeTableValue_def buildEvidenceFromPanels_def)
  have intent: "detectObservabilityIntent (lit ''drop'') = IntentAnomaly"
    by (simp add: detectObservabilityIntent_def anomalyKeyword_def toLowerCase_def lowerUnit_def
        startsWith_def lit_def Let_def)
  have reqs: "requests (observabilityPlanStage None (lit ''drop''))
                = [hubbleRequest (detectLanguage (lit ''drop'')), ndiRequest (detectLanguage (lit ''drop''))]"
    by (simp add: observabilityPlanStage_def enforceObservabilityIntent_def intent
        buildObservabilityRequest_def fallbackObservabilityPlan_language Let_def)
  have obs: "map evidenceSize (buildEvidenceFromPanels
        (runObservabilityPanels stubHost (observabilityPlanStage None (lit ''drop'')))) = [2]"
    unfolding buildEvidence_map runObservabilityPanels_eq reqs
    by (simp add: networkRowsFor_def hubbleRequest_def ndiRequest_def)
  have kinds: "map panelKind (runObservabilityPanels stubHost (observabilityPlanStage None (lit ''drop'')))
       = [PKNetwork]"
    unfolding runObservabilityPanels_eq reqs
    by (simp add: networkRowsFor_def hubbleRequest_def ndiRequest_def)
  from bound have la: "list_all (\<lambda>e. evidenceSize e \<le> 12) (buildEvidenceFromPanels (fst ?run))"
    by (simp add: list_all_iff)
  from la sec obs kinds show ?thesis by (intro conjI)
qed


end
